theory Spec2Isabelle
  imports Main "HOL-Library.Word"
begin

unbundle bit_operations_syntax

section \<open>Results of Go calls\<close>

text \<open>
  A Go function of the plugin ends in one of four ways: it returns normally, it returns a
  non-nil \<open>error\<close> (one constructor per \<open>fmt.Errorf\<close> site of the source), it ends
  the process through \<open>log.Fatalf\<close>, or it panics at run time.
\<close>

datatype error =
    NoMoreIPs              \<comment> \<open>"no more IPs available in the pool"\<close>
  | InvalidCIDRRange       \<comment> \<open>"invalid CIDR range: ..." (AllocateIP)\<close>
  | NoAvailableIPs         \<comment> \<open>"no available IPs in the pool"\<close>
  | IPNil                  \<comment> \<open>"IP cannot be nil"\<close>
  | NotIPv4                \<comment> \<open>"IP is not a valid IPv4 address"\<close>
  | OutOfRange             \<comment> \<open>"IP ... is out of range for the pool"\<close>
  | NotAllocated           \<comment> \<open>"IP ... is not allocated"\<close>
  | WriteFailed            \<comment> \<open>"failed to write data to file: ..."\<close>
  | ReadFailed             \<comment> \<open>"failed to read IP pool data: ..."\<close>
  | UnmarshalFailed        \<comment> \<open>"failed to unmarshal IP pool data: ..."\<close>
  | EncodeFailed           \<comment> \<open>the error of \<open>json.Encoder.Encode\<close> on standard output\<close>
  | EnvCommandNotSet       \<comment> \<open>"CNI_COMMAND not set"\<close>
  | EnvContainerIDNotSet   \<comment> \<open>"CNI_CONTAINERID not set"\<close>
  | EnvNetNSNotSet         \<comment> \<open>"CNI_NETNS not set"\<close>
  | EnvIfNameNotSet        \<comment> \<open>"CNI_IFNAME not set"\<close>
  | FailedGetBridge        \<comment> \<open>"failed to get bridge ..."\<close>
  | FailedCreateBridge     \<comment> \<open>"failed to create bridge ..."\<close>
  | FailedSetUpBridge      \<comment> \<open>"failed to set up bridge ..."\<close>
  | FailedCreateVeth       \<comment> \<open>"failed to create veth pair: ..."\<close>
  | FailedMoveVeth         \<comment> \<open>"failed to move veth ... to namespace ..."\<close>
  | FailedGetPeer          \<comment> \<open>"failed to get peer veth ..."\<close>
  | FailedSetMaster        \<comment> \<open>"failed to set master for peer veth ..."\<close>
  | FailedSetUpVeth        \<comment> \<open>"failed to set up veth ... in container namespace"\<close>
  | FailedSetUpPeer        \<comment> \<open>"failed to set up peer veth ..."\<close>
  | FailedParseSubnet      \<comment> \<open>"failed to parse subnet ..."\<close>
  | InvalidGatewayIP       \<comment> \<open>"invalid gateway IP ..."\<close>
  | FailedAddGateway       \<comment> \<open>"failed to add gateway IP ... to bridge ..."\<close>
  | FailedLoadPool         \<comment> \<open>"failed to load IP pool: ..."\<close>
  | FailedAllocate         \<comment> \<open>"failed to allocate IP from pool: ..."\<close>
  | FailedAddAddress       \<comment> \<open>"failed to add IP address ... to veth ..."\<close>
  | ParseConfigFailed      \<comment> \<open>"failed to parse network configuration: ..."\<close>
  | CommandNotSupported string  \<comment> \<open>"Command '...' not supported"\<close>

datatype fatal =
    EmptyArgument          \<comment> \<open>"Pool name, CIDR range, and path cannot be empty"\<close>
  | BadCIDRArgument        \<comment> \<open>"Invalid CIDR range: ..." (NewIpPool)\<close>
  | MkdirFailed            \<comment> \<open>"Failed to create directory ..."\<close>

datatype panic =
    MakesliceLen           \<comment> \<open>\<open>make([]byte, n)\<close> with \<open>n < 0\<close>\<close>
  | IndexOutOfRange        \<comment> \<open>\<open>a[i]\<close> with \<open>i\<close> outside \<open>0 .. len(a) - 1\<close>\<close>
  | SliceBounds            \<comment> \<open>\<open>s[:5]\<close> with \<open>len(s) < 5\<close>\<close>
  | NilLink                \<comment> \<open>a method call on a nil \<open>netlink.Link\<close>\<close>

datatype 'a outcome = Ok 'a | Err error | Fatal fatal | Panic panic

section \<open>The parts of Go's \<open>net\<close> package the plugin calls\<close>

type_synonym byte = "8 word"

text \<open>
  \<open>net.ParseCIDR\<close> and \<open>net.ParseIP\<close> belong to Go's standard library, not to the
  plugin, so the plugin's functions take them as a parameter. Of the network
  \<open>ParseCIDR\<close> returns, the plugin reads \<open>Mask.Size()\<close> only, so the model's
  \<open>ParseCIDR\<close> returns that pair \<open>(ones, bits)\<close>, and \<open>None\<close> for a parse error.
  \<open>ParseIP\<close> returns the bytes of the address, and \<open>None\<close> for nil.
\<close>

record netlib =
  ParseCIDR :: "string \<Rightarrow> (nat \<times> nat) option"
  ParseIP :: "string \<Rightarrow> byte list option"

text \<open>\<open>IP.To4\<close>: a 4-byte address as it is, a 16-byte IPv4-mapped one cut to its last
  four bytes, nil for everything else.\<close>

definition To4 :: "byte list \<Rightarrow> byte list option" where
  "To4 ip =
     (if length ip = 4 then Some ip
      else if length ip = 16 \<and> take 10 ip = replicate 10 0 \<and> ip ! 10 = 0xff \<and> ip ! 11 = 0xff
        then Some (drop 12 ip)
      else None)"

subsection \<open>Go's parsers on IPv4 text\<close>

text \<open>
  The concrete library used to evaluate the plugin on concrete strings follows
  \<open>netip.ParseAddr\<close>, \<open>net.ParseIP\<close> and \<open>net.ParseCIDR\<close> of Go 1.24 on dotted-decimal
  IPv4 text. IPv6 literals, which the plugin's specification excludes, are outside this
  instance: it answers \<open>None\<close> for them, so it is used on IPv4 text only.
\<close>

definition digit_val :: "char \<Rightarrow> nat option" where
  "digit_val c = (let n = (of_char c :: nat) in if 48 \<le> n \<and> n \<le> 57 then Some (n - 48) else None)"

text \<open>\<open>parseIPv4Fields\<close>: the arguments after the text are "this is the first character",
  "the previous character was a dot", the value and digit count of the current octet, and
  the octets already read.\<close>

fun parseIPv4Fields :: "string \<Rightarrow> bool \<Rightarrow> bool \<Rightarrow> nat \<Rightarrow> nat \<Rightarrow> byte list \<Rightarrow> byte list option" where
  "parseIPv4Fields [] first prevDot val digLen octets =
     (if length octets < 3 then None else Some (octets @ [of_nat val]))"
| "parseIPv4Fields (c # cs) first prevDot val digLen octets =
     (case digit_val c of
        Some d \<Rightarrow>
          if digLen = 1 \<and> val = 0 then None
          else if val * 10 + d > 255 then None
          else parseIPv4Fields cs False False (val * 10 + d) (digLen + 1) octets
      | None \<Rightarrow>
          if c = CHR ''.'' then
            (if first \<or> cs = [] \<or> prevDot then None
             else if length octets = 3 then None
             else parseIPv4Fields cs False True 0 0 (octets @ [of_nat val]))
          else None)"

text \<open>\<open>netip.ParseAddr\<close>: the first of \<open>.\<close>, \<open>:\<close> and \<open>%\<close> in the text decides the parser.\<close>

fun ParseAddr_scan :: "string \<Rightarrow> string \<Rightarrow> byte list option" where
  "ParseAddr_scan s [] = None"
| "ParseAddr_scan s (c # cs) =
     (if c = CHR ''.'' then parseIPv4Fields s True False 0 0 []
      else if c = CHR '':'' then None
      else if c = CHR ''%'' then None
      else ParseAddr_scan s cs)"

definition ParseAddr :: "string \<Rightarrow> byte list option" where
  "ParseAddr s = ParseAddr_scan s s"

text \<open>\<open>net.ParseIP\<close> returns the 16-byte (IPv4-mapped) form of an IPv4 address.\<close>

definition go_ParseIP :: "string \<Rightarrow> byte list option" where
  "go_ParseIP s =
     (case ParseAddr s of
        None \<Rightarrow> None
      | Some b \<Rightarrow> Some (replicate 10 0 @ [0xff, 0xff] @ b))"

text \<open>\<open>dtoi\<close>: the decimal prefix of the text, the number of characters read, and whether
  a number below \<open>0xFFFFFF\<close> was read.\<close>

fun dtoi_loop :: "string \<Rightarrow> nat \<Rightarrow> nat \<Rightarrow> nat \<times> nat \<times> bool" where
  "dtoi_loop [] n i = (if i = 0 then (0, 0, False) else (n, i, True))"
| "dtoi_loop (c # cs) n i =
     (case digit_val c of
        Some d \<Rightarrow>
          if n * 10 + d \<ge> 0xFFFFFF then (0xFFFFFF, i, False)
          else dtoi_loop cs (n * 10 + d) (i + 1)
      | None \<Rightarrow> (if i = 0 then (0, 0, False) else (n, i, True)))"

definition dtoi :: "string \<Rightarrow> nat \<times> nat \<times> bool" where
  "dtoi s = dtoi_loop s 0 0"

definition go_ParseCIDR :: "string \<Rightarrow> (nat \<times> nat) option" where
  "go_ParseCIDR s =
     (if CHR ''/'' \<notin> set s then None
      else let addr = takeWhile (\<lambda>c. c \<noteq> CHR ''/'') s;
               mask = tl (dropWhile (\<lambda>c. c \<noteq> CHR ''/'') s)
           in case ParseAddr addr of
                None \<Rightarrow> None
              | Some b \<Rightarrow>
                  (case dtoi mask of
                     (n, i, ok) \<Rightarrow>
                       if \<not> ok \<or> i \<noteq> length mask \<or> n > 32 then None
                       else Some (n, 32)))"

definition go_net :: netlib where
  "go_net = \<lparr> ParseCIDR = go_ParseCIDR, ParseIP = go_ParseIP \<rparr>"

section \<open>The address pool (\<open>pkg/ippool.go\<close>)\<close>

text \<open>The struct \<open>IpPool\<close>. Go's \<open>int\<close> is 64 bits wide on the platforms the plugin
  is built for; the fields hold its values as integers. The mutex is not part of the
  state a single-threaded run can observe.\<close>

record IpPool =
  PoolName :: string
  CidrRange :: string
  Path :: string
  Gateway :: int
  TotalIps :: int
  LastAllocatedIP :: int
  Allocation :: "byte list"

subsection \<open>Files and \<open>encoding/json\<close>\<close>

text \<open>
  \<open>encoding/json\<close> is not part of the plugin. A file is kept as \<open>json.Unmarshal\<close>
  into an \<open>IpPool\<close> sees it: either text that it rejects as a whole without touching
  the pool, or a JSON object, as the list of its members in order. A member is kept by
  the field of \<open>IpPool\<close> that its key selects through the json tags (\<open>UnknownKey\<close> for
  a key that selects none), and by what its value is for that field: a string, a number
  that an \<open>int\<close> takes, a value that decodes to a byte slice (\<open>encoding/json\<close> writes a
  \<open>[]byte\<close> as the base64 text of the bytes and reads it back from it), null, or a
  value that the field cannot take.
\<close>

datatype member =
    PoolNameKey | CidrRangeKey | PathKey | GatewayKey | TotalIpsKey | LastAllocatedIPKey
  | AllocationKey | UnknownKey

datatype jvalue = JString string | JNumber int | JBytes "byte list" | JNull | JOther

datatype content = Garbage | Object "(member \<times> jvalue) list"

subsection \<open>The kernel's links, as the plugin sees them through \<open>netlink\<close>\<close>

text \<open>A link handle carries the name and hardware address the plugin reads from it.\<close>

datatype link = Link (link_name: string) (link_mac: string)

text \<open>The calls into \<open>netlink\<close>, with their arguments. The master of
  \<open>LinkSetMaster\<close> is \<open>None\<close> for a nil \<open>netlink.Link\<close>. An address is its bytes
  and the \<open>(ones, bits)\<close> of its mask.\<close>

datatype call =
    LinkByName string
  | LinkAddBridge string int
  | LinkAddVeth string int string
  | LinkSetUp link
  | LinkSetNsPid link int
  | LinkSetMaster link "link option"
  | AddrAdd link "byte list" nat nat

subsection \<open>What the plugin writes to standard output\<close>

record CNIInterface =
  if_Name :: string
  if_Mac :: string
  if_Sandbox :: string

record CNIIP =
  ip_Interface :: int
  ip_Address :: "byte list \<times> nat"
  ip_Gateway :: string

record CNIResult =
  res_CNIVersion :: string
  res_Interfaces :: "CNIInterface list"
  res_IPs :: "CNIIP list"
  res_DNS :: "string list"

record CNIError =
  err_CNIVersion :: string
  err_Code :: int
  err_Msg :: string
  err_Details :: error

record VersionResult =
  ver_CNIVersion :: string
  ver_SupportedVersions :: "string list"

datatype document = ResultDoc CNIResult | ErrorDoc CNIError | VersionDoc VersionResult

subsection \<open>The world outside the process\<close>

text \<open>
  The operating system and the kernel are not part of the plugin. The world holds the
  files, says which directory creations and file writes fail, whether standard output
  can be written, and answers each \<open>netlink\<close> call from the calls made so far:
  \<open>link_table\<close> is the link \<open>LinkByName\<close> finds (\<open>None\<close>: it returns an error), and
  \<open>call_refused\<close> says whether any other call returns an error. \<open>trace\<close> records the
  calls made, each with whether it succeeded, and \<open>stdout\<close> the documents written.
\<close>

record world =
  files :: "string \<Rightarrow> content option"
  mkdir_fails :: "string \<Rightarrow> bool"
  write_fails :: "string \<Rightarrow> bool"
  stdout_fails :: bool
  link_table :: "(call \<times> bool) list \<Rightarrow> string \<Rightarrow> link option"
  call_refused :: "(call \<times> bool) list \<Rightarrow> call \<Rightarrow> bool"
  trace :: "(call \<times> bool) list"
  stdout :: "document list"

subsection \<open>\<open>NewIpPool\<close>\<close>

text \<open>
  \<open>1<<uint(size) - 3\<close> is computed in a 64-bit \<open>int\<close>: a shift by 64 or more gives 0,
  and the subtraction wraps. \<open>sz\<close> (the source's \<open>size\<close>) is the first result of
  \<open>ipNet.Mask.Size()\<close>, the number of leading one bits of the mask. \<open>make\<close> panics on a negative length; the model
  has no bound on memory. \<open>LastAllocatedIP\<close> and \<open>Gateway\<close> keep Go's zero value.
\<close>

definition NewIpPool :: "netlib \<Rightarrow> world \<Rightarrow> string \<Rightarrow> string \<Rightarrow> string \<Rightarrow> IpPool outcome" where
  "NewIpPool L w poolName cidrRange path =
     (if poolName = [] \<or> cidrRange = [] \<or> path = [] then Fatal EmptyArgument
      else case ParseCIDR L cidrRange of
        None \<Rightarrow> Fatal BadCIDRArgument
      | Some (sz, bits) \<Rightarrow>
          if mkdir_fails w path then Fatal MkdirFailed
          else let n = sint ((push_bit sz 1 :: 64 word) - 3) in
            if n < 0 then Panic MakesliceLen
            else Ok \<lparr> PoolName = poolName, CidrRange = cidrRange, Path = path, Gateway = 0,
                      TotalIps = n, LastAllocatedIP = 0,
                      Allocation = replicate (nat n) 0 \<rparr>)"

subsection \<open>\<open>AllocateIP\<close>\<close>

text \<open>The reverse search \<open>for i := LastAllocatedIP; i >= 0; i--\<close>: the index of the first
  free slot met, \<open>None\<close> when the loop ends without one, a panic when \<open>i\<close> is not an
  index of the slice.\<close>

function reverse_search :: "byte list \<Rightarrow> int \<Rightarrow> int option outcome" where
  "reverse_search a i =
     (if i \<ge> 0 then
        (if i \<ge> int (length a) then Panic IndexOutOfRange
         else if a ! nat i = 0 then Ok (Some i)
         else reverse_search a (i - 1))
      else Ok None)"
  by pat_completeness auto
termination
  by (relation "measure (\<lambda>(a, i). nat (i + 1))") auto

declare reverse_search.simps [simp del]

text \<open>The forward search \<open>for i := LastAllocatedIP + 1; i < TotalIps; i++\<close>.\<close>

function forward_search :: "byte list \<Rightarrow> int \<Rightarrow> int \<Rightarrow> int option outcome" where
  "forward_search a n i =
     (if i < n then
        (if i < 0 \<or> i \<ge> int (length a) then Panic IndexOutOfRange
         else if a ! nat i = 0 then Ok (Some i)
         else forward_search a n (i + 1))
      else Ok None)"
  by pat_completeness auto
termination
  by (relation "measure (\<lambda>(a, n, i). nat (n - i))") auto

declare forward_search.simps [simp del]

text \<open>\<open>ip := net.ParseIP(ipPool.CidrRange).To4()\<close>, then \<open>ip[3] += byte(i + 1)\<close>; nil
  when the text does not parse or is not an IPv4 address.\<close>

definition slot_address :: "netlib \<Rightarrow> string \<Rightarrow> int \<Rightarrow> byte list option" where
  "slot_address L cidr i =
     (case ParseIP L cidr of
        None \<Rightarrow> None
      | Some ip16 \<Rightarrow>
          (case To4 ip16 of
             None \<Rightarrow> None
           | Some ip \<Rightarrow> Some (ip[3 := ip ! 3 + of_int (i + 1)])))"

text \<open>\<open>AllocateIP\<close> returns the address or the error, and the pool as the call leaves
  it: the slot is marked before the address is computed.\<close>

definition AllocateIP :: "netlib \<Rightarrow> IpPool \<Rightarrow> byte list outcome \<times> IpPool" where
  "AllocateIP L p =
     (if LastAllocatedIP p \<ge> TotalIps p then (Err NoMoreIPs, p)
      else case reverse_search (Allocation p) (LastAllocatedIP p) of
        Panic e \<Rightarrow> (Panic e, p)
      | Err e \<Rightarrow> (Err e, p)
      | Fatal f \<Rightarrow> (Fatal f, p)
      | Ok (Some i) \<Rightarrow>
          (let p' = p\<lparr> Allocation := (Allocation p)[nat i := 1] \<rparr> in
           case slot_address L (CidrRange p) i of
             None \<Rightarrow> (Err InvalidCIDRRange, p')
           | Some ip \<Rightarrow> (Ok ip, p'))
      | Ok None \<Rightarrow>
          (case forward_search (Allocation p) (TotalIps p) (LastAllocatedIP p + 1) of
             Panic e \<Rightarrow> (Panic e, p)
           | Err e \<Rightarrow> (Err e, p)
           | Fatal f \<Rightarrow> (Fatal f, p)
           | Ok (Some i) \<Rightarrow>
               (let p' = p\<lparr> Allocation := (Allocation p)[nat i := 1], LastAllocatedIP := i \<rparr> in
                case slot_address L (CidrRange p) i of
                  None \<Rightarrow> (Err InvalidCIDRRange, p')
                | Some ip \<Rightarrow> (Ok ip, p'))
           | Ok None \<Rightarrow> (Err NoAvailableIPs, p)))"

subsection \<open>\<open>ReleaseIP\<close>\<close>

text \<open>The walk \<open>for i := LastAllocatedIP - 1; i >= 0; i--\<close> after a release: the first
  index met whose slot holds 1, \<open>None\<close> when the loop ends without one.\<close>

function walk_back :: "byte list \<Rightarrow> int \<Rightarrow> int option outcome" where
  "walk_back a i =
     (if i \<ge> 0 then
        (if i \<ge> int (length a) then Panic IndexOutOfRange
         else if a ! nat i = 1 then Ok (Some i)
         else walk_back a (i - 1))
      else Ok None)"
  by pat_completeness auto
termination
  by (relation "measure (\<lambda>(a, i). nat (i + 1))") auto

declare walk_back.simps [simp del]

text \<open>The address is \<open>None\<close> for a nil \<open>net.IP\<close>.\<close>

definition ReleaseIP :: "IpPool \<Rightarrow> byte list option \<Rightarrow> unit outcome \<times> IpPool" where
  "ReleaseIP p ip =
     (case ip of
        None \<Rightarrow> (Err IPNil, p)
      | Some b \<Rightarrow>
          (case To4 b of
             None \<Rightarrow> (Err NotIPv4, p)
           | Some ip4 \<Rightarrow>
               (let index = int (unat (ip4 ! 3)) - 1 in
                if index < 0 \<or> index \<ge> TotalIps p then (Err OutOfRange, p)
                else if index \<ge> int (length (Allocation p)) then (Panic IndexOutOfRange, p)
                else if Allocation p ! nat index = 0 then (Err NotAllocated, p)
                else
                  (let p' = p\<lparr> Allocation := (Allocation p)[nat index := 0] \<rparr> in
                   if index = LastAllocatedIP p' then
                     (case walk_back (Allocation p') (LastAllocatedIP p' - 1) of
                        Ok (Some i) \<Rightarrow> (Ok (), p'\<lparr> LastAllocatedIP := i \<rparr>)
                      | Ok None \<Rightarrow> (Ok (), p')
                      | Panic e \<Rightarrow> (Panic e, p')
                      | Err e \<Rightarrow> (Err e, p')
                      | Fatal f \<Rightarrow> (Fatal f, p'))
                   else (Ok (), p')))))"

subsection \<open>\<open>Save\<close> and \<open>Load\<close>\<close>

text \<open>
  \<open>json.Marshal(ipPool)\<close>: the exported fields in the order of the struct, under their
  json tags. \<open>gateway\<close> and \<open>allocation\<close> carry \<open>omitempty\<close>: a zero \<open>Gateway\<close> and
  an empty \<open>Allocation\<close> are left out. Text is written as it is.
\<close>

definition Marshal :: "IpPool \<Rightarrow> content" where
  "Marshal p =
     Object
       ([(PoolNameKey, JString (PoolName p)),
         (CidrRangeKey, JString (CidrRange p)),
         (PathKey, JString (Path p))] @
        (if Gateway p = 0 then [] else [(GatewayKey, JNumber (Gateway p))]) @
        [(TotalIpsKey, JNumber (TotalIps p)),
         (LastAllocatedIPKey, JNumber (LastAllocatedIP p))] @
        (if Allocation p = [] then [] else [(AllocationKey, JBytes (Allocation p))]))"

text \<open>
  \<open>json.Unmarshal\<close> of one member into the pool: the field is overwritten by a value
  it takes; null leaves a string or an \<open>int\<close> as it is and makes a slice nil; a value
  the field cannot take is skipped and reported. The result says whether the member was
  reported.
\<close>

fun set_member :: "member \<Rightarrow> jvalue \<Rightarrow> IpPool \<Rightarrow> IpPool \<times> bool" where
  "set_member UnknownKey v p = (p, False)"
| "set_member k JNull p = (if k = AllocationKey then p\<lparr> Allocation := [] \<rparr> else p, False)"
| "set_member PoolNameKey (JString x) p = (p\<lparr> PoolName := x \<rparr>, False)"
| "set_member CidrRangeKey (JString x) p = (p\<lparr> CidrRange := x \<rparr>, False)"
| "set_member PathKey (JString x) p = (p\<lparr> Path := x \<rparr>, False)"
| "set_member GatewayKey (JNumber n) p = (p\<lparr> Gateway := n \<rparr>, False)"
| "set_member TotalIpsKey (JNumber n) p = (p\<lparr> TotalIps := n \<rparr>, False)"
| "set_member LastAllocatedIPKey (JNumber n) p = (p\<lparr> LastAllocatedIP := n \<rparr>, False)"
| "set_member AllocationKey (JBytes b) p = (p\<lparr> Allocation := b \<rparr>, False)"
| "set_member k v p = (p, True)"

text \<open>The members are read in order; the fields not named keep what the pool held.
  \<open>Unmarshal\<close> goes on after a member it reports and returns the error at the end.\<close>

fun set_members :: "(member \<times> jvalue) list \<Rightarrow> IpPool \<Rightarrow> IpPool \<times> bool" where
  "set_members [] p = (p, False)"
| "set_members ((k, v) # ms) p =
     (case set_member k v p of
        (p', bad) \<Rightarrow> (case set_members ms p' of (p'', bad') \<Rightarrow> (p'', bad \<or> bad')))"

definition pool_file :: "IpPool \<Rightarrow> string" where
  "pool_file p = Path p @ ''/'' @ PoolName p @ ''.json''"

text \<open>\<open>Save\<close>: a write that fails leaves the files of the model as they were.\<close>

definition Save :: "IpPool \<Rightarrow> world \<Rightarrow> unit outcome \<times> world" where
  "Save p w =
     (if write_fails w (pool_file p) then (Err WriteFailed, w)
      else (Ok (), w\<lparr> files := (files w)(pool_file p \<mapsto> Marshal p) \<rparr>))"

text \<open>\<open>Load\<close> returns the pool as the call leaves it; a file that is there can be
  read.\<close>

definition Load :: "IpPool \<Rightarrow> world \<Rightarrow> unit outcome \<times> IpPool" where
  "Load p w =
     (case files w (pool_file p) of
        None \<Rightarrow> (Err ReadFailed, p)
      | Some Garbage \<Rightarrow> (Err UnmarshalFailed, p)
      | Some (Object ms) \<Rightarrow>
          (case set_members ms p of
             (p', bad) \<Rightarrow> (if bad then Err UnmarshalFailed else Ok (), p')))"

text \<open>The pool states that the constructor and the two operations of the pool reach.\<close>

inductive reachable :: "netlib \<Rightarrow> IpPool \<Rightarrow> bool" for L :: netlib where
  constructed: "NewIpPool L w poolName cidrRange path = Ok p \<Longrightarrow> reachable L p"
| allocated: "reachable L p \<Longrightarrow> reachable L (snd (AllocateIP L p))"
| released: "reachable L p \<Longrightarrow> reachable L (snd (ReleaseIP p ip))"

section \<open>The plugin (\<open>main.go\<close>)\<close>

text \<open>\<open>NetworkConfig\<close> with the fields of the embedded \<open>types.NetConf\<close> that the plugin
  reads, and \<open>Environment\<close>.\<close>

record NetworkConfig =
  cfg_CNIVersion :: string
  cfg_Name :: string
  cfg_Bridge :: string
  cfg_Subnet :: string
  cfg_Gateway :: string
  cfg_MTU :: int

record Environment =
  env_Command :: string
  env_ContainerID :: string
  env_NetNS :: string
  env_IfName :: string
  env_Args :: string
  env_Path :: string
  env_PID :: int

text \<open>\<open>parseConfig\<close>: standard input is given as the configuration that the JSON decoder
  reads from it, \<open>None\<close> when decoding fails. The defaults are filled in.\<close>

definition parseConfig :: "NetworkConfig option \<Rightarrow> NetworkConfig outcome" where
  "parseConfig stdin =
     (case stdin of
        None \<Rightarrow> Err ParseConfigFailed
      | Some config \<Rightarrow>
          Ok (config\<lparr> cfg_Bridge := (if cfg_Bridge config = [] then ''cni0'' else cfg_Bridge config),
                      cfg_MTU := (if cfg_MTU config = 0 then 1500 else cfg_MTU config) \<rparr>))"

text \<open>\<open>os.Getenv\<close> is the empty string for a variable that is not set. \<open>getEnvironment\<close>
  leaves \<open>PID\<close> at Go's zero value.\<close>

definition Getenv :: "(string \<Rightarrow> string option) \<Rightarrow> string \<Rightarrow> string" where
  "Getenv vars k = (case vars k of None \<Rightarrow> [] | Some v \<Rightarrow> v)"

definition getEnvironment :: "(string \<Rightarrow> string option) \<Rightarrow> Environment" where
  "getEnvironment vars =
     \<lparr> env_Command = Getenv vars ''CNI_COMMAND'',
       env_ContainerID = Getenv vars ''CNI_CONTAINERID'',
       env_NetNS = Getenv vars ''CNI_NETNS'',
       env_IfName = Getenv vars ''CNI_IFNAME'',
       env_Args = Getenv vars ''CNI_ARGS'',
       env_Path = Getenv vars ''CNI_PATH'',
       env_PID = 0 \<rparr>"

text \<open>\<open>validateEnvironment\<close>: \<open>None\<close> is the nil error.\<close>

definition validateEnvironment :: "Environment \<Rightarrow> error option" where
  "validateEnvironment env =
     (if env_Command env = [] then Some EnvCommandNotSet
      else if env_Command env \<noteq> ''VERSION'' then
        (if env_ContainerID env = [] then Some EnvContainerIDNotSet
         else if env_NetNS env = [] then Some EnvNetNSNotSet
         else if env_IfName env = [] then Some EnvIfNameNotSet
         else None)
      else None)"

subsection \<open>Calls into \<open>netlink\<close> and writes to standard output\<close>

definition LinkByName_call :: "world \<Rightarrow> string \<Rightarrow> link option \<times> world" where
  "LinkByName_call w name =
     (let r = link_table w (trace w) name
      in (r, w\<lparr> trace := trace w @ [(LinkByName name, r \<noteq> None)] \<rparr>))"

definition netlink_call :: "world \<Rightarrow> call \<Rightarrow> bool \<times> world" where
  "netlink_call w c =
     (let ok = \<not> call_refused w (trace w) c
      in (ok, w\<lparr> trace := trace w @ [(c, ok)] \<rparr>))"

text \<open>\<open>json.NewEncoder(os.Stdout).Encode(doc)\<close>.\<close>

definition Encode :: "document \<Rightarrow> world \<Rightarrow> unit outcome \<times> world" where
  "Encode doc w =
     (if stdout_fails w then (Err EncodeFailed, w)
      else (Ok (), w\<lparr> stdout := stdout w @ [doc] \<rparr>))"

subsection \<open>\<open>cmdAdd\<close>\<close>

text \<open>
  The last part of \<open>cmdAdd\<close>, from \<open>net.ParseCIDR(config.Subnet)\<close> on: the gateway
  address goes to the bridge, the pool is loaded, an address is allocated and assigned to
  the container-side link, and the result is written. \<open>AddrAdd\<close> on a nil bridge is a
  method call on a nil interface. The text \<open>ip/ones\<close> of the result is kept as the pair.
\<close>

definition cmdAdd_addresses ::
    "netlib \<Rightarrow> NetworkConfig \<Rightarrow> Environment \<Rightarrow> IpPool \<Rightarrow> link option \<Rightarrow> link \<Rightarrow> world
      \<Rightarrow> unit outcome \<times> world" where
  "cmdAdd_addresses L config env ipPool bridge containerVeth w =
     (case ParseCIDR L (cfg_Subnet config) of
        None \<Rightarrow> (Err FailedParseSubnet, w)
      | Some (ones, bits) \<Rightarrow>
     (case ParseIP L (cfg_Gateway config) of
        None \<Rightarrow> (Err InvalidGatewayIP, w)
      | Some gatewayIP \<Rightarrow>
     (case bridge of
        None \<Rightarrow> (Panic NilLink, w)
      | Some br \<Rightarrow>
     (case netlink_call w (AddrAdd br gatewayIP ones bits) of
        (False, w1) \<Rightarrow> (Err FailedAddGateway, w1)
      | (True, w1) \<Rightarrow>
     (case Load ipPool w1 of
        (Err e, _) \<Rightarrow> (Err FailedLoadPool, w1)
      | (Fatal f, _) \<Rightarrow> (Fatal f, w1)
      | (Panic e, _) \<Rightarrow> (Panic e, w1)
      | (Ok _, loaded) \<Rightarrow>
     (case AllocateIP L loaded of
        (Err e, _) \<Rightarrow> (Err FailedAllocate, w1)
      | (Fatal f, _) \<Rightarrow> (Fatal f, w1)
      | (Panic e, _) \<Rightarrow> (Panic e, w1)
      | (Ok ip, _) \<Rightarrow>
     (case netlink_call w1 (AddrAdd containerVeth ip ones bits) of
        (False, w2) \<Rightarrow> (Err FailedAddAddress, w2)
      | (True, w2) \<Rightarrow>
          Encode
            (ResultDoc
              \<lparr> res_CNIVersion = cfg_CNIVersion config,
                res_Interfaces =
                  [\<lparr> if_Name = cfg_Bridge config, if_Mac = link_mac br, if_Sandbox = [] \<rparr>,
                   \<lparr> if_Name = env_IfName env, if_Mac = link_mac containerVeth,
                     if_Sandbox = env_NetNS env \<rparr>],
                res_IPs =
                  [\<lparr> ip_Interface = 1, ip_Address = (ip, ones),
                     ip_Gateway = cfg_Gateway config \<rparr>],
                res_DNS = [''8.8.8.8'', ''1.1.1.1''] \<rparr>)
            w2)))))))"

text \<open>
  The middle part of \<open>cmdAdd\<close>, from \<open>containerID[:5]\<close> on: the veth pair is created,
  the container-side end is looked up (the error of this \<open>LinkByName\<close> is overwritten
  unread) and moved, the peer is looked up, attached to the bridge and both ends are
  brought up. \<open>LinkSetNsPid\<close> on the nil link of a failed lookup is a method call on a
  nil interface.
\<close>

definition cmdAdd_veth ::
    "netlib \<Rightarrow> NetworkConfig \<Rightarrow> Environment \<Rightarrow> IpPool \<Rightarrow> link option \<Rightarrow> world
      \<Rightarrow> unit outcome \<times> world" where
  "cmdAdd_veth L config env ipPool bridge w =
     (if length (env_ContainerID env) < 5 then (Panic SliceBounds, w)
      else
     (let peerName = ''veth-'' @ take 5 (env_ContainerID env) in
     (case netlink_call w (LinkAddVeth (env_IfName env) (cfg_MTU config) peerName) of
        (False, w1) \<Rightarrow> (Err FailedCreateVeth, w1)
      | (True, w1) \<Rightarrow>
     (case LinkByName_call w1 (env_IfName env) of
        (None, w2) \<Rightarrow> (Panic NilLink, w2)
      | (Some containerVeth, w2) \<Rightarrow>
     (case netlink_call w2 (LinkSetNsPid containerVeth (env_PID env)) of
        (False, w3) \<Rightarrow> (Err FailedMoveVeth, w3)
      | (True, w3) \<Rightarrow>
     (case LinkByName_call w3 peerName of
        (None, w4) \<Rightarrow> (Err FailedGetPeer, w4)
      | (Some peerVeth, w4) \<Rightarrow>
     (case netlink_call w4 (LinkSetMaster peerVeth bridge) of
        (False, w5) \<Rightarrow> (Err FailedSetMaster, w5)
      | (True, w5) \<Rightarrow>
     (case netlink_call w5 (LinkSetUp containerVeth) of
        (False, w6) \<Rightarrow> (Err FailedSetUpVeth, w6)
      | (True, w6) \<Rightarrow>
     (case netlink_call w6 (LinkSetUp peerVeth) of
        (False, w7) \<Rightarrow> (Err FailedSetUpPeer, w7)
      | (True, w7) \<Rightarrow>
          cmdAdd_addresses L config env ipPool bridge containerVeth w7)))))))))"

text \<open>
  The bridge block inside \<open>if bridge, err = netlink.LinkByName(config.Bridge); err != nil\<close>,
  after its first statement: the bridge is created and brought up when \<open>bridge == nil\<close>.
  The variable \<open>bridge\<close> is not assigned; the result is the error of the block, if any.
\<close>

definition cmdAdd_create_bridge ::
    "NetworkConfig \<Rightarrow> link option \<Rightarrow> world \<Rightarrow> error option \<times> world" where
  "cmdAdd_create_bridge config bridge w =
     (if bridge = None then
        (case netlink_call w (LinkAddBridge (cfg_Bridge config) (cfg_MTU config)) of
           (False, w1) \<Rightarrow> (Some FailedCreateBridge, w1)
         | (True, w1) \<Rightarrow>
        (case netlink_call w1 (LinkSetUp (Link (cfg_Bridge config) [])) of
           (False, w2) \<Rightarrow> (Some FailedSetUpBridge, w2)
         | (True, w2) \<Rightarrow> (None, w2)))
      else (None, w))"

text \<open>
  \<open>cmdAdd\<close>. The pool is built from \<open>config.Subnet\<close> as its name, \<open>config.Gateway\<close> as
  its range and \<open>env.Path\<close> as its directory; the result of \<open>Save\<close> is dropped.
  \<open>LinkByName\<close> returns a link or an error: inside \<open>err != nil\<close> the source tests
  \<open>err != nil\<close> again and returns.
\<close>

definition cmdAdd :: "netlib \<Rightarrow> NetworkConfig \<Rightarrow> Environment \<Rightarrow> world \<Rightarrow> unit outcome \<times> world" where
  "cmdAdd L config env w =
     (case NewIpPool L w (cfg_Subnet config) (cfg_Gateway config) (env_Path env) of
        Err e \<Rightarrow> (Err e, w)
      | Fatal f \<Rightarrow> (Fatal f, w)
      | Panic e \<Rightarrow> (Panic e, w)
      | Ok ipPool \<Rightarrow>
     (let w0 = snd (Save ipPool w) in
     (case LinkByName_call w0 (cfg_Bridge config) of
        (bridge, w1) \<Rightarrow>
          (let err_not_nil = (bridge = None) in
           if err_not_nil then
             (if err_not_nil then (Err FailedGetBridge, w1)
              else
                (case cmdAdd_create_bridge config bridge w1 of
                   (Some e, w2) \<Rightarrow> (Err e, w2)
                 | (None, w2) \<Rightarrow> cmdAdd_veth L config env ipPool bridge w2))
           else cmdAdd_veth L config env ipPool bridge w1))))"

subsection \<open>The other commands and \<open>main\<close>\<close>

definition cmdDel :: "NetworkConfig \<Rightarrow> Environment \<Rightarrow> world \<Rightarrow> unit outcome \<times> world" where
  "cmdDel config env w = (Ok (), w)"

definition cmdCheck :: "NetworkConfig \<Rightarrow> Environment \<Rightarrow> world \<Rightarrow> unit outcome \<times> world" where
  "cmdCheck config env w =
     Encode
       (ResultDoc
         \<lparr> res_CNIVersion = cfg_CNIVersion config,
           res_Interfaces =
             [\<lparr> if_Name = env_IfName env, if_Mac = ''00:11:22:33:44:55'',
                if_Sandbox = env_NetNS env \<rparr>],
           res_IPs =
             [\<lparr> ip_Interface = 0, ip_Address = ([10, 0, 0, 10], 24), ip_Gateway = ''10.0.0.1'' \<rparr>],
           res_DNS = [] \<rparr>)
       w"

definition cmdVersion :: "world \<Rightarrow> unit outcome \<times> world" where
  "cmdVersion w =
     Encode
       (VersionDoc
         \<lparr> ver_CNIVersion = ''1.1.0'',
           ver_SupportedVersions = [''0.4.0'', ''1.0.0'', ''1.1.0''] \<rparr>)
       w"

text \<open>\<open>sendError\<close> drops the error of its own \<open>Encode\<close>.\<close>

definition sendError :: "int \<Rightarrow> string \<Rightarrow> error \<Rightarrow> string \<Rightarrow> world \<Rightarrow> world" where
  "sendError code msg details cniVersion w =
     snd (Encode
            (ErrorDoc
              \<lparr> err_CNIVersion = (if cniVersion = [] then ''1.1.0'' else cniVersion),
                err_Code = code, err_Msg = msg, err_Details = details \<rparr>)
            w)"

text \<open>How the process ends: with an exit status (0 when \<open>main\<close> returns, 1 after
  \<open>os.Exit(1)\<close> and after \<open>log.Fatalf\<close>), or in a panic.\<close>

datatype exit = Exited nat | Panicked panic

text \<open>One command handler of \<open>main\<close>'s switch: an error is reported with code 7 and the
  handler's message.\<close>

definition run_command ::
    "unit outcome \<times> world \<Rightarrow> string \<Rightarrow> string \<Rightarrow> exit \<times> world" where
  "run_command r msg cniVersion =
     (case r of
        (Ok _, w) \<Rightarrow> (Exited 0, w)
      | (Err e, w) \<Rightarrow> (Exited 1, sendError 7 msg e cniVersion w)
      | (Fatal f, w) \<Rightarrow> (Exited 1, w)
      | (Panic e, w) \<Rightarrow> (Panicked e, w))"

text \<open>\<open>main\<close>, from the variables of the process environment, standard input and the
  world.\<close>

definition main ::
    "netlib \<Rightarrow> (string \<Rightarrow> string option) \<Rightarrow> NetworkConfig option \<Rightarrow> world \<Rightarrow> exit \<times> world" where
  "main L vars stdin w =
     (let env = getEnvironment vars in
      case validateEnvironment env of
        Some e \<Rightarrow> (Exited 1, sendError 4 ''Invalid environment variables'' e [] w)
      | None \<Rightarrow>
          if env_Command env = ''VERSION'' then
            (case cmdVersion w of
               (Err e, w') \<Rightarrow> (Exited 1, sendError 1 ''Failed to get version'' e [] w')
             | (Fatal f, w') \<Rightarrow> (Exited 1, w')
             | (Panic e, w') \<Rightarrow> (Panicked e, w')
             | (Ok _, w') \<Rightarrow> (Exited 0, w'))
          else
            (case parseConfig stdin of
               Err e \<Rightarrow> (Exited 1, sendError 7 ''Invalid network configuration'' e [] w)
             | Fatal f \<Rightarrow> (Exited 1, w)
             | Panic e \<Rightarrow> (Panicked e, w)
             | Ok config \<Rightarrow>
                 if env_Command env = ''ADD'' then
                   run_command (cmdAdd L config env w) ''Failed to add network''
                     (cfg_CNIVersion config)
                 else if env_Command env = ''DEL'' then
                   run_command (cmdDel config env w) ''Failed to delete network''
                     (cfg_CNIVersion config)
                 else if env_Command env = ''CHECK'' then
                   run_command (cmdCheck config env w) ''Network check failed''
                     (cfg_CNIVersion config)
                 else
                   (Exited 1,
                    sendError 4 ''Unknown command'' (CommandNotSupported (env_Command env))
                      (cfg_CNIVersion config) w)))"

section \<open>The scans, in the specification's words\<close>



definition nearest_allocated_below :: "byte list \<Rightarrow> int \<Rightarrow> int option" where
  "nearest_allocated_below a i = find (\<lambda>j. a ! nat j = 1) (rev [0..i - 1])"

section \<open>Reading the trace\<close>

text \<open>
  What a run of the plugin adds to the trace, and predicates on its events: a successful
  move of a link into a namespace, any attempt to move it, a refused move, an address
  assignment to a link (attempted, whatever its outcome), a successful attachment of a
  link to a master, an attempt to bring a link up, and a request for a new bridge.
  \<open>preceded early late es\<close> holds when no \<open>late\<close> event of \<open>es\<close> comes before the first
  \<open>early\<close> event.
\<close>

definition added :: "world \<Rightarrow> world \<Rightarrow> (call \<times> bool) list" where
  "added w w' = drop (length (trace w)) (trace w')"

fun preceded :: "(call \<times> bool \<Rightarrow> bool) \<Rightarrow> (call \<times> bool \<Rightarrow> bool) \<Rightarrow> (call \<times> bool) list \<Rightarrow> bool" where
  "preceded early late [] = True"
| "preceded early late (e # es) = (early e \<or> (\<not> late e \<and> preceded early late es))"

definition moved :: "link \<Rightarrow> call \<times> bool \<Rightarrow> bool" where
  "moved l e = (case e of (LinkSetNsPid l' pid, ok) \<Rightarrow> ok \<and> l' = l | _ \<Rightarrow> False)"

definition move_of :: "link \<Rightarrow> call \<times> bool \<Rightarrow> bool" where
  "move_of l e = (case e of (LinkSetNsPid l' pid, ok) \<Rightarrow> l' = l | _ \<Rightarrow> False)"

definition move_refused :: "call \<times> bool \<Rightarrow> bool" where
  "move_refused e = (case e of (LinkSetNsPid l pid, ok) \<Rightarrow> \<not> ok | _ \<Rightarrow> False)"

definition address_to :: "link \<Rightarrow> call \<times> bool \<Rightarrow> bool" where
  "address_to l e = (case e of (AddrAdd l' ip ones bits, ok) \<Rightarrow> l' = l | _ \<Rightarrow> False)"

definition any_address :: "call \<times> bool \<Rightarrow> bool" where
  "any_address e = (case e of (AddrAdd l ip ones bits, ok) \<Rightarrow> True | _ \<Rightarrow> False)"

definition attached :: "link \<Rightarrow> link option \<Rightarrow> call \<times> bool \<Rightarrow> bool" where
  "attached l master e = (case e of (LinkSetMaster l' m, ok) \<Rightarrow> ok \<and> l' = l \<and> m = master | _ \<Rightarrow> False)"

definition brought_up :: "link \<Rightarrow> call \<times> bool \<Rightarrow> bool" where
  "brought_up l e = (case e of (LinkSetUp l', ok) \<Rightarrow> l' = l | _ \<Rightarrow> False)"

definition bridge_created :: "call \<times> bool \<Rightarrow> bool" where
  "bridge_created e = (case e of (LinkAddBridge n m, ok) \<Rightarrow> True | _ \<Rightarrow> False)"

section \<open>Concrete inputs for the pool\<close>

text \<open>A world with no files and no links in which no operation fails.\<close>

definition quiet_world :: world where
  "quiet_world =
     \<lparr> files = (\<lambda>_. None), mkdir_fails = (\<lambda>_. False), write_fails = (\<lambda>_. False),
       stdout_fails = False, link_table = (\<lambda>_ _. None), call_refused = (\<lambda>_ _. False),
       trace = [], stdout = [] \<rparr>"

text \<open>A pool of three slots whose range text is a plain IPv4 address, with slots 0 and 1
  allocated.\<close>

definition sample_pool :: IpPool where
  "sample_pool =
     \<lparr> PoolName = ''net'', CidrRange = ''10.0.0.0'', Path = ''/var/lib/cni'', Gateway = 0,
       TotalIps = 3, LastAllocatedIP = 1, Allocation = [1, 1, 0] \<rparr>"

text \<open>A pool of three slots after its first allocation: slot 0 allocated,
  \<open>LastAllocatedIP\<close> 0.\<close>

definition first_slot_pool :: IpPool where
  "first_slot_pool =
     \<lparr> PoolName = ''net'', CidrRange = ''10.0.0.0'', Path = ''/var/lib/cni'', Gateway = 0,
       TotalIps = 3, LastAllocatedIP = 0, Allocation = [1, 0, 0] \<rparr>"


definition slash2_pool :: IpPool where
  "slash2_pool =
     \<lparr> PoolName = ''test-network'', CidrRange = ''64.0.0.0/2'', Path = ''/var/lib/cni'',
       Gateway = 0, TotalIps = 1, LastAllocatedIP = 0, Allocation = [0] \<rparr>"



section \<open>Concrete inputs for the plugin\<close>

text \<open>
  A library whose \<open>ParseIP\<close> tolerates a trailing mask, so that one text passes both
  \<open>NewIpPool\<close> and the gateway check of \<open>cmdAdd\<close>; a world in which every name
  resolves to a link and nothing fails; the same world refusing every namespace move; the
  configurations and environment of the Makefile's \<open>test-add\<close> target, with the gateway
  written as a CIDR (\<open>test_config\<close>, \<open>add_config\<close>) and as in the Makefile
  (\<open>makefile_config\<close>); the pool \<open>cmdAdd\<close> builds from \<open>test_config\<close>; and a process
  environment that sets \<open>CNI_COMMAND=VERSION\<close> and nothing else.
\<close>

definition lenient_net :: netlib where
  "lenient_net =
     \<lparr> ParseCIDR = go_ParseCIDR,
       ParseIP = (\<lambda>s. go_ParseIP (takeWhile (\<lambda>c. c \<noteq> CHR ''/'') s)) \<rparr>"

definition lab_world :: world where
  "lab_world =
     \<lparr> files = (\<lambda>_. None), mkdir_fails = (\<lambda>_. False), write_fails = (\<lambda>_. False),
       stdout_fails = False,
       link_table = (\<lambda>_ name. Some (Link name ''02:00:00:00:00:01'')),
       call_refused = (\<lambda>_ _. False), trace = [], stdout = [] \<rparr>"

definition no_move_world :: world where
  "no_move_world =
     lab_world\<lparr> call_refused :=
       (\<lambda>_ c. case c of LinkSetNsPid l pid \<Rightarrow> True | _ \<Rightarrow> False) \<rparr>"

definition test_config :: NetworkConfig where
  "test_config =
     \<lparr> cfg_CNIVersion = ''1.1.0'', cfg_Name = ''test-network'', cfg_Bridge = ''cni0'',
       cfg_Subnet = ''10.0.0.0/24'', cfg_Gateway = ''10.0.0.1/3'', cfg_MTU = 1500 \<rparr>"

definition test_pool :: IpPool where
  "test_pool =
     \<lparr> PoolName = ''10.0.0.0/24'', CidrRange = ''10.0.0.1/3'', Path = ''/opt/cni/bin'',
       Gateway = 0, TotalIps = 5, LastAllocatedIP = 0, Allocation = replicate 5 0 \<rparr>"

definition add_config :: NetworkConfig where
  "add_config =
     \<lparr> cfg_CNIVersion = ''1.1.0'', cfg_Name = ''test-network'', cfg_Bridge = ''cni0'',
       cfg_Subnet = ''10.0.0.0/24'', cfg_Gateway = ''10.0.0.1/24'', cfg_MTU = 1500 \<rparr>"

definition makefile_config :: NetworkConfig where
  "makefile_config =
     \<lparr> cfg_CNIVersion = ''1.1.0'', cfg_Name = ''test-network'', cfg_Bridge = ''cni0'',
       cfg_Subnet = ''10.0.0.0/24'', cfg_Gateway = ''10.0.0.1'', cfg_MTU = 1500 \<rparr>"

definition test_env :: Environment where
  "test_env =
     \<lparr> env_Command = ''ADD'', env_ContainerID = ''test123'', env_NetNS = ''/tmp/test'',
       env_IfName = ''eth0'', env_Args = [], env_Path = ''/opt/cni/bin'', env_PID = 0 \<rparr>"

definition version_only :: "string \<Rightarrow> string option" where
  "version_only k = (if k = ''CNI_COMMAND'' then Some ''VERSION'' else None)"

section \<open>Properties of the address pool\<close>

lemmas go_parse_defs =
  go_net_def go_ParseCIDR_def go_ParseIP_def ParseAddr_def digit_val_def dtoi_def

subsection \<open>Construction\<close>

text \<open>What a pool that \<open>NewIpPool\<close> returns looks like.\<close>

lemma NewIpPool_Ok:
  assumes "NewIpPool L w poolName cidrRange path = Ok p"
  shows "\<exists>sz bits. ParseCIDR L cidrRange = Some (sz, bits) \<and>
           TotalIps p = sint ((push_bit sz 1 :: 64 word) - 3) \<and> 0 \<le> TotalIps p \<and>
           Allocation p = replicate (nat (TotalIps p)) 0 \<and> LastAllocatedIP p = 0 \<and>
           CidrRange p = cidrRange \<and> PoolName p = poolName \<and> Path p = path"
  using assms by (auto simp: NewIpPool_def Let_def split: option.splits if_splits)

text \<open>For a prefix length \<open>sz\<close> below 63 the pool has \<open>2^sz - 3\<close> slots, and \<open>sz\<close> is at
  least 2: the exponent is the prefix length, not the number of host bits.\<close>

lemma pool_size:
  assumes "2 \<le> sz" and "sz < 63"
  shows "sint ((push_bit sz 1 :: 64 word) - 3) = 2 ^ sz - 3"
proof -
  have w: "(push_bit sz 1 :: 64 word) - 3 = word_of_int (2 ^ sz - 3)"
    by (simp add: push_bit_eq_mult)
  have "(2::int) ^ 2 \<le> 2 ^ sz" using assms(1) by (intro power_increasing) simp_all
  then have lo: "- (2 ^ (LENGTH(64) - 1)) \<le> (2::int) ^ sz - 3" by simp
  have "(2::int) ^ sz < 2 ^ 63" using assms(2) by (intro power_strict_increasing) simp_all
  then have hi: "(2::int) ^ sz - 3 < 2 ^ (LENGTH(64) - 1)" by simp
  from lo hi have "signed_take_bit (LENGTH(64) - Suc 0) ((2::int) ^ sz - 3) = 2 ^ sz - 3"
    by (intro signed_take_bit_int_eq_self) simp_all
  then show ?thesis unfolding w by (subst signed_of_int) simp
qed

lemma NewIpPool_total:
  assumes "NewIpPool L w poolName cidrRange path = Ok p"
    and "ParseCIDR L cidrRange = Some (sz, bits)" and "sz < 63"
  shows "2 \<le> sz \<and> TotalIps p = 2 ^ sz - 3"
proof -
  from NewIpPool_Ok [OF assms(1)] assms(2)
  have t: "TotalIps p = sint ((push_bit sz 1 :: 64 word) - 3)" and nn: "0 \<le> TotalIps p"
    by auto
  have "2 \<le> sz"
  proof (rule ccontr)
    assume "\<not> 2 \<le> sz"
    then have "sz = 0 \<or> sz = 1" by auto
    then have "sint ((push_bit sz 1 :: 64 word) - 3) < 0" by auto
    with t nn show False by simp
  qed
  with t pool_size [OF _ assms(3)] show ?thesis by simp
qed

text \<open>
  Claim C1 (pool sizing). The claim says that the pool built for a CIDR with \<open>h\<close> host
  bits has \<open>2^h - 3\<close> slots, 253 for \<open>10.0.0.0/24\<close>. \<open>NewIpPool\<close> shifts by the first
  result of \<open>Mask.Size()\<close>, which is the prefix length: for \<open>10.0.0.0/24\<close> it builds a
  pool of \<open>2^24 - 3 = 16777213\<close> slots, all free.
\<close>

theorem NewIpPool_slash24:
  "NewIpPool go_net quiet_world ''test-network'' ''10.0.0.0/24'' ''/var/lib/cni'' =
     Ok \<lparr> PoolName = ''test-network'', CidrRange = ''10.0.0.0/24'', Path = ''/var/lib/cni'',
          Gateway = 0, TotalIps = 16777213, LastAllocatedIP = 0,
          Allocation = replicate 16777213 0 \<rparr>"
  by (simp add: NewIpPool_def go_parse_defs quiet_world_def)

subsection \<open>Release\<close>

lemma walk_back_cases: "walk_back a i = Panic IndexOutOfRange \<or> (\<exists>r. walk_back a i = Ok r)"
proof (induction a i rule: walk_back.induct)
  case (1 a i)
  then show ?case using walk_back.simps [of a i] by (auto split: if_splits)
qed

text \<open>\<open>ReleaseIP\<close> on an address that \<open>To4\<close> accepts.\<close>

lemma ReleaseIP_IPv4:
  assumes "To4 b = Some ip4"
  defines "index \<equiv> int (unat (ip4 ! 3)) - 1"
  defines "p' \<equiv> \<lambda>p. p\<lparr> Allocation := (Allocation p)[nat index := 0] \<rparr>"
  shows "ReleaseIP p (Some b) =
     (if index < 0 \<or> index \<ge> TotalIps p then (Err OutOfRange, p)
      else if index \<ge> int (length (Allocation p)) then (Panic IndexOutOfRange, p)
      else if Allocation p ! nat index = 0 then (Err NotAllocated, p)
      else if index = LastAllocatedIP p then
        (case walk_back (Allocation (p' p)) (LastAllocatedIP p - 1) of
           Ok (Some i) \<Rightarrow> (Ok (), (p' p)\<lparr> LastAllocatedIP := i \<rparr>)
         | Ok None \<Rightarrow> (Ok (), p' p)
         | Panic e \<Rightarrow> (Panic e, p' p)
         | Err e \<Rightarrow> (Err e, p' p)
         | Fatal f \<Rightarrow> (Fatal f, p' p))
      else (Ok (), p' p))"
  using assms(1) unfolding ReleaseIP_def index_def p'_def Let_def by simp

text \<open>
  Claim C10 (release atomicity on error). Whenever \<open>ReleaseIP\<close> returns an error, for
  any pool and any address (nil, not IPv4, index out of range, slot free), the pool is
  as it was before the call.
\<close>

theorem ReleaseIP_error_unchanged:
  assumes e: "fst (ReleaseIP p ip) = Err e"
  shows "snd (ReleaseIP p ip) = p"
proof (cases ip)
  case None
  then show ?thesis by (simp add: ReleaseIP_def)
next
  case (Some b)
  show ?thesis
  proof (cases "To4 b")
    case None
    with Some show ?thesis by (simp add: ReleaseIP_def)
  next
    case (Some ip4)
    define index where "index = int (unat (ip4 ! 3)) - 1"
    from walk_back_cases
      [of "(Allocation p)[nat index := 0]" "LastAllocatedIP p - 1"]
    show ?thesis
      using e unfolding \<open>ip = Some b\<close> ReleaseIP_IPv4 [OF Some] index_def [symmetric]
      by (auto split: if_splits option.splits)
  qed
qed

theorem ReleaseIP_error_unchanged_witness:
  "fst (ReleaseIP sample_pool (Some [10, 0, 0, 3])) = Err NotAllocated \<and>
   snd (ReleaseIP sample_pool (Some [10, 0, 0, 3])) = sample_pool"
proof -
  have h: "fst (ReleaseIP sample_pool (Some [10, 0, 0, 3])) = Err NotAllocated"
    by (simp add: ReleaseIP_def sample_pool_def To4_def)
  from h ReleaseIP_error_unchanged [OF h] show ?thesis by simp
qed

lemma walk_back_scan:
  "i < int (length a) \<Longrightarrow> walk_back a i = Ok (nearest_allocated_below a (i + 1))"
proof (induction a i rule: walk_back.induct)
  case (1 a i)
  show ?case
  proof (cases "i \<ge> 0")
    case False
    then show ?thesis by (simp add: walk_back.simps [of a i] nearest_allocated_below_def)
  next
    case True
    then have u: "rev [0..i] = i # rev [0..i - 1]" by (simp add: upto_rec2)
    show ?thesis
    proof (cases "a ! nat i = 1")
      case z: True
      with True 1(2) show ?thesis
        by (simp add: walk_back.simps [of a i] nearest_allocated_below_def u)
    next
      case nz: False
      with True 1 have "walk_back a (i - 1) = Ok (nearest_allocated_below a i)" by simp
      with True nz 1(2) show ?thesis
        by (simp add: walk_back.simps [of a i] nearest_allocated_below_def u)
    qed
  qed
qed

text \<open>
  Claim C6 (release semantics), as the code has it. For an IPv4 address and a pool whose
  bitmap has \<open>TotalIps\<close> slots, \<open>ReleaseIP\<close> fails exactly when the index
  \<open>hostOctet - 1\<close> is out of range ("out of range") or its slot is free ("not
  allocated"), and changes nothing then. Otherwise it clears the slot, and when the index
  is \<open>LastAllocatedIP\<close> it moves \<open>LastAllocatedIP\<close> to the nearest index below whose slot
  holds 1; when there is none, \<open>LastAllocatedIP\<close> stays where it is.
\<close>

theorem ReleaseIP_semantics:
  assumes v4: "To4 b = Some ip4" and len: "int (length (Allocation p)) = TotalIps p"
  shows "(if int (unat (ip4 ! 3)) - 1 < 0 \<or> int (unat (ip4 ! 3)) - 1 \<ge> TotalIps p
            then ReleaseIP p (Some b) = (Err OutOfRange, p)
          else if Allocation p ! nat (int (unat (ip4 ! 3)) - 1) = 0
            then ReleaseIP p (Some b) = (Err NotAllocated, p)
          else ReleaseIP p (Some b) =
            (Ok (),
             p\<lparr> Allocation := (Allocation p)[nat (int (unat (ip4 ! 3)) - 1) := 0],
                LastAllocatedIP :=
                  (if int (unat (ip4 ! 3)) - 1 = LastAllocatedIP p then
                     (case nearest_allocated_below
                             ((Allocation p)[nat (int (unat (ip4 ! 3)) - 1) := 0])
                             (LastAllocatedIP p) of
                        Some i \<Rightarrow> i
                      | None \<Rightarrow> LastAllocatedIP p)
                   else LastAllocatedIP p) \<rparr>))"
proof -
  define index where "index = int (unat (ip4 ! 3)) - 1"
  have w: "index = LastAllocatedIP p \<Longrightarrow> index < TotalIps p \<Longrightarrow>
        walk_back ((Allocation p)[nat index := 0]) (LastAllocatedIP p - 1) =
        Ok (nearest_allocated_below ((Allocation p)[nat index := 0]) (LastAllocatedIP p))"
    using walk_back_scan [of "LastAllocatedIP p - 1" "(Allocation p)[nat index := 0]"] len
    by simp
  show ?thesis
    unfolding ReleaseIP_IPv4 [OF v4] index_def [symmetric]
    using len w by (auto split: option.splits)
qed

theorem ReleaseIP_semantics_witness:
  "To4 [10, 0, 0, 2] = Some [10, 0, 0, 2] \<and>
   int (length (Allocation sample_pool)) = TotalIps sample_pool \<and>
   ReleaseIP sample_pool (Some [10, 0, 0, 2]) =
     (Ok (), sample_pool\<lparr> Allocation := [1, 0, 0], LastAllocatedIP := 0 \<rparr>)"
proof -
  have v4: "To4 [10, 0, 0, 2] = Some [10, 0, 0, 2]" by (simp add: To4_def)
  have len: "int (length (Allocation sample_pool)) = TotalIps sample_pool"
    by (simp add: sample_pool_def)
  from ReleaseIP_semantics [OF v4 len] v4 len show ?thesis
    by (simp add: sample_pool_def nearest_allocated_below_def)
qed

text \<open>
  Claim C6 as stated fails where it says that the high-water mark goes to the "none"
  sentinel when no allocated index remains below. After the first allocation of a pool
  (slot 0 allocated, \<open>LastAllocatedIP = 0\<close>), releasing that address leaves every slot
  free and \<open>LastAllocatedIP\<close> at 0, the index of a slot, not at a value that stands
  for "none" (the repository's notes start the mark at \<open>-1\<close>).
\<close>

theorem ReleaseIP_keeps_mark:
  "ReleaseIP first_slot_pool (Some [10, 0, 0, 1]) =
     (Ok (), first_slot_pool\<lparr> Allocation := [0, 0, 0] \<rparr>) \<and>
   LastAllocatedIP (snd (ReleaseIP first_slot_pool (Some [10, 0, 0, 1]))) = 0 \<and>
   LastAllocatedIP (snd (ReleaseIP first_slot_pool (Some [10, 0, 0, 1]))) \<noteq> - 1"
  by (simp add: ReleaseIP_def first_slot_pool_def To4_def walk_back.simps)

subsection \<open>Allocation\<close>







lemma slash2_pool_built:
  "NewIpPool go_net quiet_world ''test-network'' ''64.0.0.0/2'' ''/var/lib/cni'' = Ok slash2_pool"
  by (simp add: NewIpPool_def go_parse_defs quiet_world_def slash2_pool_def)


lemma slash2_pool_allocate:
  "AllocateIP go_net slash2_pool = (Err InvalidCIDRRange, slash2_pool\<lparr> Allocation := [1] \<rparr>)"
  by (simp add: AllocateIP_def slash2_pool_def reverse_search.simps [of _ 0]
        slot_address_def go_parse_defs)

lemma slash2_pool_allocate_again:
  "AllocateIP go_net (slash2_pool\<lparr> Allocation := [1] \<rparr>) =
     (Err NoAvailableIPs, slash2_pool\<lparr> Allocation := [1] \<rparr>)"
  by (simp add: AllocateIP_def slash2_pool_def reverse_search.simps [of _ 0]
        reverse_search.simps [of _ "- 1"] forward_search.simps [of _ 1 1])









text \<open>A slot that a search returns is a free slot of the bitmap, whatever the pool.\<close>

lemma reverse_search_Some:
  "reverse_search a l = Ok (Some i) \<Longrightarrow> 0 \<le> i \<and> i < int (length a) \<and> a ! nat i = 0"
proof (induction a l rule: reverse_search.induct)
  case (1 a l)
  then show ?case using reverse_search.simps [of a l] by (auto split: if_splits)
qed

lemma forward_search_Some:
  "forward_search a n l = Ok (Some i) \<Longrightarrow> 0 \<le> i \<and> i < int (length a) \<and> a ! nat i = 0"
proof (induction a n l rule: forward_search.induct)
  case (1 a n l)
  then show ?case using forward_search.simps [of a n l] by (auto split: if_splits)
qed

lemma slot_address_Some:
  "slot_address L c i = Some ip \<Longrightarrow>
   \<exists>ip16 b. ParseIP L c = Some ip16 \<and> To4 ip16 = Some b \<and> ip = b[3 := b ! 3 + of_int (i + 1)]"
  by (auto simp: slot_address_def split: option.splits)

text \<open>What a call that returns an address has done.\<close>

lemma AllocateIP_returns:
  assumes ok: "fst (AllocateIP L p) = Ok ip"
  shows "\<exists>i ip16 b. 0 \<le> i \<and> i < int (length (Allocation p)) \<and> Allocation p ! nat i = 0 \<and>
           Allocation (snd (AllocateIP L p)) = (Allocation p)[nat i := 1] \<and>
           ParseIP L (CidrRange p) = Some ip16 \<and> To4 ip16 = Some b \<and>
           ip = b[3 := b ! 3 + of_int (i + 1)]"
proof -
  from ok have g: "\<not> LastAllocatedIP p \<ge> TotalIps p"
    by (auto simp: AllocateIP_def)
  show ?thesis
  proof (cases "reverse_search (Allocation p) (LastAllocatedIP p)")
    case (Ok r)
    show ?thesis
    proof (cases r)
      case (Some i)
      with Ok ok g have sa: "slot_address L (CidrRange p) i = Some ip"
        and st: "snd (AllocateIP L p) = p\<lparr> Allocation := (Allocation p)[nat i := 1] \<rparr>"
        by (auto simp: AllocateIP_def Let_def split: option.splits)
      from Ok Some reverse_search_Some [of "Allocation p" "LastAllocatedIP p" i]
      have "0 \<le> i \<and> i < int (length (Allocation p)) \<and> Allocation p ! nat i = 0" by simp
      with slot_address_Some [OF sa] st show ?thesis by auto
    next
      case None
      note rn = None
      show ?thesis
      proof (cases "forward_search (Allocation p) (TotalIps p) (LastAllocatedIP p + 1)")
        case fo: (Ok r')
        show ?thesis
        proof (cases r')
          case (Some i)
          with fo Ok rn ok g have sa: "slot_address L (CidrRange p) i = Some ip"
            and st: "snd (AllocateIP L p) =
                       p\<lparr> Allocation := (Allocation p)[nat i := 1], LastAllocatedIP := i \<rparr>"
            by (auto simp: AllocateIP_def Let_def split: option.splits)
          from fo Some forward_search_Some [of "Allocation p" "TotalIps p" "LastAllocatedIP p + 1" i]
          have "0 \<le> i \<and> i < int (length (Allocation p)) \<and> Allocation p ! nat i = 0" by simp
          with slot_address_Some [OF sa] st show ?thesis by auto
        next
          case None
          with fo Ok rn ok g show ?thesis by (simp add: AllocateIP_def)
        qed
      qed (use Ok rn ok g in \<open>simp_all add: AllocateIP_def\<close>)
    qed
  qed (use ok g in \<open>simp_all add: AllocateIP_def\<close>)
qed




subsection \<open>Pools that \<open>NewIpPool\<close> builds\<close>

lemma digit_val_slash: "digit_val CHR ''/'' = None"
  by (simp add: digit_val_def)

lemma parseIPv4Fields_slash:
  "CHR ''/'' \<in> set s \<Longrightarrow> parseIPv4Fields s f pd v dl os = None"
proof (induction s arbitrary: f pd v dl os)
  case Nil
  then show ?case by simp
next
  case (Cons c cs)
  show ?case
  proof (cases "c = CHR ''/''")
    case True
    then show ?thesis by (simp add: digit_val_slash)
  next
    case False
    with Cons.prems have m: "CHR ''/'' \<in> set cs" by simp
    then have ih: "\<And>f pd v dl os. parseIPv4Fields cs f pd v dl os = None" by (rule Cons.IH)
    from m have "cs \<noteq> []" by auto
    with ih show ?thesis by (auto split: option.splits)
  qed
qed

lemma ParseAddr_scan_slash: "CHR ''/'' \<in> set s \<Longrightarrow> ParseAddr_scan s t = None"
  by (induction t) (simp_all add: parseIPv4Fields_slash)

text \<open>No text is both a CIDR for \<open>net.ParseCIDR\<close> and an address for \<open>net.ParseIP\<close>.\<close>

lemma go_ParseCIDR_not_ParseIP: "go_ParseCIDR s = Some x \<Longrightarrow> go_ParseIP s = None"
proof -
  assume "go_ParseCIDR s = Some x"
  then have "CHR ''/'' \<in> set s" by (auto simp: go_ParseCIDR_def split: if_splits)
  then show ?thesis by (simp add: go_ParseIP_def ParseAddr_def ParseAddr_scan_slash)
qed

text \<open>\<open>NewIpPool\<close> accepts the range text through \<open>ParseCIDR\<close>, \<open>AllocateIP\<close> reads
  the same text through \<open>ParseIP\<close>: with Go's parsers, a pool that carries the range
  text of a pool that \<open>NewIpPool\<close> returned never gives out an address.\<close>

lemma constructed_pool_never_allocates:
  assumes "NewIpPool go_net w poolName cidrRange path = Ok p" and "CidrRange q = CidrRange p"
  shows "fst (AllocateIP go_net q) \<noteq> Ok ip"
proof
  assume ok: "fst (AllocateIP go_net q) = Ok ip"
  from NewIpPool_Ok [OF assms(1)] obtain x where "go_ParseCIDR (CidrRange p) = Some x"
    by (auto simp: go_net_def)
  then have "ParseIP go_net (CidrRange q) = None"
    using assms(2) by (simp add: go_net_def go_ParseCIDR_not_ParseIP)
  with AllocateIP_returns [OF ok] show False by auto
qed

text \<open>
  Claim C5 (exhaustion) says that a fresh pool of \<open>n\<close> slots admits exactly \<open>n\<close>
  successful calls. The pool that \<open>NewIpPool\<close> builds for \<open>64.0.0.0/2\<close> has one slot.
  Its first \<open>AllocateIP\<close> marks the slot and fails with "invalid CIDR range"; the
  second fails with "no available IPs in the pool". No call has returned an address.
\<close>

theorem fresh_pool_no_address:
  "NewIpPool go_net quiet_world ''test-network'' ''64.0.0.0/2'' ''/var/lib/cni'' = Ok slash2_pool \<and>
   TotalIps slash2_pool = 1 \<and>
   AllocateIP go_net slash2_pool = (Err InvalidCIDRRange, slash2_pool\<lparr> Allocation := [1] \<rparr>) \<and>
   AllocateIP go_net (slash2_pool\<lparr> Allocation := [1] \<rparr>) =
     (Err NoAvailableIPs, slash2_pool\<lparr> Allocation := [1] \<rparr>)"
  using slash2_pool_built slash2_pool_allocate slash2_pool_allocate_again
  by (simp add: slash2_pool_def)

subsection \<open>Persistence\<close>

text \<open>\<open>2^sz - 3\<close> is never 0 in 64 bits, so a pool that \<open>NewIpPool\<close> returns has a slot.\<close>

lemma pool_size_not_zero: "(push_bit sz 1 :: 64 word) - 3 \<noteq> 0"
proof
  assume "(push_bit sz 1 :: 64 word) - 3 = 0"
  then have e: "(push_bit sz 1 :: 64 word) = 3" by simp
  show False
  proof (cases sz)
    case 0
    with e show False by simp
  next
    case (Suc n)
    then have "even (push_bit sz 1 :: 64 word)" by (simp add: even_push_bit_iff)
    with e show False by simp
  qed
qed

lemma NewIpPool_nonempty:
  assumes "NewIpPool L w poolName cidrRange path = Ok p"
  shows "Allocation p \<noteq> []"
proof -
  from NewIpPool_Ok [OF assms] obtain sz where
    t: "TotalIps p = sint ((push_bit sz 1 :: 64 word) - 3)" and nn: "0 \<le> TotalIps p"
    and a: "Allocation p = replicate (nat (TotalIps p)) 0" by blast
  from t pool_size_not_zero [of sz] have "TotalIps p \<noteq> 0" by (simp add: signed_eq_0_iff)
  with nn a show ?thesis by simp
qed

lemma AllocateIP_length: "length (Allocation (snd (AllocateIP L p))) = length (Allocation p)"
  by (auto simp: AllocateIP_def Let_def split: outcome.splits option.splits)

lemma ReleaseIP_length: "length (Allocation (snd (ReleaseIP p ip))) = length (Allocation p)"
  by (auto simp: ReleaseIP_def Let_def split: outcome.splits option.splits)

lemma reachable_nonempty: "reachable L p \<Longrightarrow> Allocation p \<noteq> []"
proof (induction rule: reachable.induct)
  case (constructed w poolName cidrRange path p)
  then show ?case by (rule NewIpPool_nonempty)
next
  case (allocated p)
  then show ?case using AllocateIP_length [of L p] by auto
next
  case (released p ip)
  then show ?case using ReleaseIP_length [of p ip] by auto
qed

lemma set_members_Marshal:
  assumes "Allocation p \<noteq> []"
  shows "case Marshal p of Object ms \<Rightarrow>
           set_members ms q =
             (q\<lparr> PoolName := PoolName p, CidrRange := CidrRange p, Path := Path p,
                 Gateway := (if Gateway p = 0 then Gateway q else Gateway p),
                 TotalIps := TotalIps p, LastAllocatedIP := LastAllocatedIP p,
                 Allocation := Allocation p \<rparr>, False)
         | Garbage \<Rightarrow> False"
  using assms by (simp add: Marshal_def)

text \<open>
  Claim C7 (persistence round-trip). For every pool state that the constructor,
  \<open>AllocateIP\<close> and \<open>ReleaseIP\<close> reach, a \<open>Save\<close> that succeeds followed by \<open>Load\<close>
  into any pool object with the same pool name and storage path succeeds and reproduces
  the bitmap, the last-allocated index and the total count. (The bitmap of a reachable
  pool is not empty, so \<open>omitempty\<close> does not drop it.)
\<close>

theorem Save_Load_roundtrip:
  assumes reach: "reachable L p"
    and save: "Save p w = (Ok (), w')"
    and name: "PoolName q = PoolName p" and path: "Path q = Path p"
  shows "fst (Load q w') = Ok () \<and>
         Allocation (snd (Load q w')) = Allocation p \<and>
         LastAllocatedIP (snd (Load q w')) = LastAllocatedIP p \<and>
         TotalIps (snd (Load q w')) = TotalIps p"
proof -
  from reach have ne: "Allocation p \<noteq> []" by (rule reachable_nonempty)
  from name path have f: "pool_file q = pool_file p" by (simp add: pool_file_def)
  from save have "files w' (pool_file p) = Some (Marshal p)"
    by (auto simp: Save_def split: if_splits)
  with f have fl: "files w' (pool_file q) = Some (Marshal p)" by simp
  from set_members_Marshal [OF ne, of q] obtain ms where
    m: "Marshal p = Object ms" and
    s: "set_members ms q =
             (q\<lparr> PoolName := PoolName p, CidrRange := CidrRange p, Path := Path p,
                 Gateway := (if Gateway p = 0 then Gateway q else Gateway p),
                 TotalIps := TotalIps p, LastAllocatedIP := LastAllocatedIP p,
                 Allocation := Allocation p \<rparr>, False)"
    by (cases "Marshal p") auto
  show ?thesis unfolding Load_def fl m by (simp add: s)
qed

theorem Save_Load_roundtrip_witness:
  "reachable go_net (snd (AllocateIP go_net slash2_pool)) \<and>
   Save (snd (AllocateIP go_net slash2_pool)) quiet_world =
     (Ok (), snd (Save (snd (AllocateIP go_net slash2_pool)) quiet_world)) \<and>
   fst (Load slash2_pool (snd (Save (snd (AllocateIP go_net slash2_pool)) quiet_world))) = Ok () \<and>
   Allocation (snd (Load slash2_pool (snd (Save (snd (AllocateIP go_net slash2_pool)) quiet_world))))
     = [1] \<and>
   LastAllocatedIP
     (snd (Load slash2_pool (snd (Save (snd (AllocateIP go_net slash2_pool)) quiet_world)))) = 0 \<and>
   TotalIps (snd (Load slash2_pool (snd (Save (snd (AllocateIP go_net slash2_pool)) quiet_world))))
     = 1"
proof -
  define p where "p = snd (AllocateIP go_net slash2_pool)"
  have reach: "reachable go_net p"
    unfolding p_def by (rule reachable.allocated, rule reachable.constructed, rule slash2_pool_built)
  have save: "Save p quiet_world = (Ok (), snd (Save p quiet_world))"
    by (simp add: Save_def quiet_world_def)
  have name: "PoolName slash2_pool = PoolName p" and path: "Path slash2_pool = Path p"
    unfolding p_def slash2_pool_allocate by (simp_all add: slash2_pool_def)
  have v: "Allocation p = [1]" "LastAllocatedIP p = 0" "TotalIps p = 1"
    unfolding p_def slash2_pool_allocate by (simp_all add: slash2_pool_def)
  from Save_Load_roundtrip [OF reach save name path] reach save v
  show ?thesis unfolding p_def by simp
qed

section \<open>Properties of the plugin\<close>

subsection \<open>VERSION\<close>

text \<open>
  Claim C9 (VERSION command). When \<open>CNI_COMMAND\<close> is \<open>VERSION\<close> and standard output can
  be written, \<open>main\<close> exits with status 0 and writes the version document with the
  supported versions, whatever the other variables are (set or not), whatever standard
  input holds and whatever the library and the world are: neither the configuration nor
  the container id, namespace path or interface name is looked at.
\<close>

theorem VERSION_succeeds:
  assumes cmd: "vars ''CNI_COMMAND'' = Some ''VERSION''" and out: "\<not> stdout_fails w"
  shows "main L vars stdin w =
           (Exited 0,
            w\<lparr> stdout := stdout w @
                 [VersionDoc \<lparr> ver_CNIVersion = ''1.1.0'',
                                ver_SupportedVersions = [''0.4.0'', ''1.0.0'', ''1.1.0''] \<rparr>] \<rparr>)"
proof -
  have c: "env_Command (getEnvironment vars) = ''VERSION''"
    using cmd by (simp add: getEnvironment_def Getenv_def)
  then have v: "validateEnvironment (getEnvironment vars) = None"
    by (simp add: validateEnvironment_def)
  show ?thesis
    unfolding main_def Let_def v using c out
    by (simp add: cmdVersion_def Encode_def)
qed

theorem VERSION_succeeds_witness:
  "version_only ''CNI_COMMAND'' = Some ''VERSION'' \<and> \<not> stdout_fails quiet_world \<and>
   version_only ''CNI_CONTAINERID'' = None \<and> version_only ''CNI_NETNS'' = None \<and>
   version_only ''CNI_IFNAME'' = None \<and>
   main go_net version_only None quiet_world =
     (Exited 0,
      quiet_world\<lparr> stdout :=
        [VersionDoc \<lparr> ver_CNIVersion = ''1.1.0'',
                       ver_SupportedVersions = [''0.4.0'', ''1.0.0'', ''1.1.0''] \<rparr>] \<rparr>)"
proof -
  have cmd: "version_only ''CNI_COMMAND'' = Some ''VERSION''" by (simp add: version_only_def)
  have out: "\<not> stdout_fails quiet_world" by (simp add: quiet_world_def)
  have s: "stdout quiet_world = []" by (simp add: quiet_world_def)
  from VERSION_succeeds [where vars = version_only and w = quiet_world and L = go_net
      and stdin = None, OF cmd out] cmd out s
  show ?thesis by (simp add: version_only_def)
qed

subsection \<open>The trace of ADD\<close>

lemmas event_defs = moved_def move_of_def move_refused_def address_to_def any_address_def
  attached_def brought_up_def

lemma event_simps [simp]:
  "moved l (LinkByName n, ok) = False"
  "moved l (LinkAddBridge n m, ok) = False"
  "moved l (LinkAddVeth n m q, ok) = False"
  "moved l (LinkSetUp x, ok) = False"
  "moved l (LinkSetNsPid x pid, ok) = (ok \<and> x = l)"
  "moved l (LinkSetMaster x y, ok) = False"
  "moved l (AddrAdd x ip ones bits, ok) = False"
  "move_of l (LinkByName n, ok) = False"
  "move_of l (LinkAddBridge n m, ok) = False"
  "move_of l (LinkAddVeth n m q, ok) = False"
  "move_of l (LinkSetUp x, ok) = False"
  "move_of l (LinkSetNsPid x pid, ok) = (x = l)"
  "move_of l (LinkSetMaster x y, ok) = False"
  "move_of l (AddrAdd x ip ones bits, ok) = False"
  "move_refused (LinkByName n, ok) = False"
  "move_refused (LinkAddBridge n m, ok) = False"
  "move_refused (LinkAddVeth n m q, ok) = False"
  "move_refused (LinkSetUp x, ok) = False"
  "move_refused (LinkSetNsPid x pid, ok) = (\<not> ok)"
  "move_refused (LinkSetMaster x y, ok) = False"
  "move_refused (AddrAdd x ip ones bits, ok) = False"
  "address_to l (LinkByName n, ok) = False"
  "address_to l (LinkAddBridge n m, ok) = False"
  "address_to l (LinkAddVeth n m q, ok) = False"
  "address_to l (LinkSetUp x, ok) = False"
  "address_to l (LinkSetNsPid x pid, ok) = False"
  "address_to l (LinkSetMaster x y, ok) = False"
  "address_to l (AddrAdd x ip ones bits, ok) = (x = l)"
  "any_address (LinkByName n, ok) = False"
  "any_address (LinkAddBridge n m, ok) = False"
  "any_address (LinkAddVeth n m q, ok) = False"
  "any_address (LinkSetUp x, ok) = False"
  "any_address (LinkSetNsPid x pid, ok) = False"
  "any_address (LinkSetMaster x y, ok) = False"
  "any_address (AddrAdd x ip ones bits, ok) = True"
  "attached l master (LinkByName n, ok) = False"
  "attached l master (LinkAddBridge n m, ok) = False"
  "attached l master (LinkAddVeth n m q, ok) = False"
  "attached l master (LinkSetUp x, ok) = False"
  "attached l master (LinkSetNsPid x pid, ok) = False"
  "attached l master (LinkSetMaster x y, ok) = (ok \<and> x = l \<and> y = master)"
  "attached l master (AddrAdd x ip ones bits, ok) = False"
  "brought_up l (LinkByName n, ok) = False"
  "brought_up l (LinkAddBridge n m, ok) = False"
  "brought_up l (LinkAddVeth n m q, ok) = False"
  "brought_up l (LinkSetUp x, ok) = (x = l)"
  "brought_up l (LinkSetNsPid x pid, ok) = False"
  "brought_up l (LinkSetMaster x y, ok) = False"
  "brought_up l (AddrAdd x ip ones bits, ok) = False"
  by (simp_all add: event_defs)

lemma Save_trace [simp]: "trace (snd (Save p w)) = trace w"
  by (simp add: Save_def)

lemma Save_link_table [simp]: "link_table (snd (Save p w)) = link_table w"
  by (simp add: Save_def)

text \<open>The events of the last part: address assignments only, to the bridge and to the
  container-side link.\<close>

lemma cmdAdd_addresses_events:
  "\<exists>es. trace (snd (cmdAdd_addresses L config env ipPool bridge cv w)) = trace w @ es \<and>
        list_all (\<lambda>e. address_to cv e \<or> (\<exists>br. bridge = Some br \<and> address_to br e)) es"
  by (auto simp: cmdAdd_addresses_def netlink_call_def Encode_def Let_def event_defs
      split: option.splits prod.splits bool.splits outcome.splits)

lemma added_append [simp]: "trace w' = trace w @ es \<Longrightarrow> added w w' = es"
  by (simp add: added_def)

lemma trace_addresses:
  "trace (snd (cmdAdd_addresses L config env ipPool bridge cv w)) =
     trace w @ added w (snd (cmdAdd_addresses L config env ipPool bridge cv w))"
  using cmdAdd_addresses_events [of L config env ipPool bridge cv w] by auto

lemma added_addresses:
  "list_all (\<lambda>e. address_to cv e \<or> (\<exists>br. bridge = Some br \<and> address_to br e))
     (added w (snd (cmdAdd_addresses L config env ipPool bridge cv w)))"
  using cmdAdd_addresses_events [of L config env ipPool bridge cv w] by auto

lemma preceded_append:
  "preceded early late (xs @ ys) =
     (if list_ex early xs then preceded early late xs
      else \<not> list_ex late xs \<and> preceded early late ys)"
  by (induction xs) auto

lemma preceded_no_late: "\<not> list_ex late es \<Longrightarrow> preceded early late es"
  by (induction es) auto

text \<open>The middle part: what it adds to the trace is one of eight lists.\<close>

lemma cmdAdd_veth_events:
  fixes L config env ipPool bridge w
  defines "r \<equiv> cmdAdd_veth L config env ipPool bridge w"
  defines "peerName \<equiv> ''veth-'' @ take 5 (env_ContainerID env)"
  defines "mk \<equiv> LinkAddVeth (env_IfName env) (cfg_MTU config) peerName"
  shows "(trace (snd r) = trace w @ [] \<and> fst r = Panic SliceBounds) \<or>
         (trace (snd r) = trace w @ [(mk, False)] \<and> fst r = Err FailedCreateVeth) \<or>
         (trace (snd r) = trace w @ [(mk, True), (LinkByName (env_IfName env), False)] \<and> fst r = Panic NilLink) \<or>
         (\<exists>cv. trace (snd r) = trace w @ [(mk, True), (LinkByName (env_IfName env), True),
               (LinkSetNsPid cv (env_PID env), False)] \<and> fst r = Err FailedMoveVeth) \<or>
         (\<exists>cv. trace (snd r) = trace w @ [(mk, True), (LinkByName (env_IfName env), True),
               (LinkSetNsPid cv (env_PID env), True), (LinkByName peerName, False)] \<and>
               fst r = Err FailedGetPeer) \<or>
         (\<exists>cv pv. trace (snd r) = trace w @ [(mk, True), (LinkByName (env_IfName env), True),
               (LinkSetNsPid cv (env_PID env), True), (LinkByName peerName, True),
               (LinkSetMaster pv bridge, False)] \<and> fst r = Err FailedSetMaster) \<or>
         (\<exists>cv pv. trace (snd r) = trace w @ [(mk, True), (LinkByName (env_IfName env), True),
               (LinkSetNsPid cv (env_PID env), True), (LinkByName peerName, True),
               (LinkSetMaster pv bridge, True), (LinkSetUp cv, False)] \<and>
               fst r = Err FailedSetUpVeth) \<or>
         (\<exists>cv pv. trace (snd r) = trace w @ [(mk, True), (LinkByName (env_IfName env), True),
               (LinkSetNsPid cv (env_PID env), True), (LinkByName peerName, True),
               (LinkSetMaster pv bridge, True), (LinkSetUp cv, True), (LinkSetUp pv, False)] \<and>
               fst r = Err FailedSetUpPeer) \<or>
         (\<exists>cv pv tail. trace (snd r) = trace w @ [(mk, True), (LinkByName (env_IfName env), True),
               (LinkSetNsPid cv (env_PID env), True), (LinkByName peerName, True),
               (LinkSetMaster pv bridge, True), (LinkSetUp cv, True), (LinkSetUp pv, True)] @ tail \<and>
               list_all (\<lambda>e. address_to cv e \<or> (\<exists>br. bridge = Some br \<and> address_to br e)) tail)"
proof (cases "length (env_ContainerID env) < 5")
  case True
  then show ?thesis by (simp add: r_def cmdAdd_veth_def)
next
  case long: False
  obtain ok1 w1 where c1: "netlink_call w mk = (ok1, w1)" by (cases "netlink_call w mk")
  then have t1: "trace w1 = trace w @ [(mk, ok1)]" by (auto simp: netlink_call_def Let_def)
  show ?thesis
  proof (cases ok1)
    case False
    with long c1 t1 show ?thesis
      by (simp add: r_def cmdAdd_veth_def Let_def mk_def peerName_def)
  next
    case ok1: True
    obtain cvo w2 where c2: "LinkByName_call w1 (env_IfName env) = (cvo, w2)"
      by (cases "LinkByName_call w1 (env_IfName env)")
    then have t2: "trace w2 = trace w @ [(mk, True), (LinkByName (env_IfName env), cvo \<noteq> None)]"
      using t1 ok1 by (auto simp: LinkByName_call_def Let_def)
    show ?thesis
    proof (cases cvo)
      case None
      with long c1 ok1 c2 t2 show ?thesis
        by (simp add: r_def cmdAdd_veth_def Let_def mk_def peerName_def)
    next
      case (Some cv)
      obtain ok3 w3 where c3: "netlink_call w2 (LinkSetNsPid cv (env_PID env)) = (ok3, w3)"
        by (cases "netlink_call w2 (LinkSetNsPid cv (env_PID env))")
      then have t3: "trace w3 = trace w @ [(mk, True), (LinkByName (env_IfName env), True),
                        (LinkSetNsPid cv (env_PID env), ok3)]"
        using t2 Some by (auto simp: netlink_call_def Let_def)
      show ?thesis
      proof (cases ok3)
        case False
        with long c1 ok1 c2 Some c3 t3 show ?thesis
          by (simp add: r_def cmdAdd_veth_def Let_def mk_def peerName_def)
      next
        case ok3: True
        obtain pvo w4 where c4: "LinkByName_call w3 peerName = (pvo, w4)"
          by (cases "LinkByName_call w3 peerName")
        then have t4: "trace w4 = trace w @ [(mk, True), (LinkByName (env_IfName env), True),
                        (LinkSetNsPid cv (env_PID env), True), (LinkByName peerName, pvo \<noteq> None)]"
          using t3 ok3 by (auto simp: LinkByName_call_def Let_def)
        show ?thesis
        proof (cases pvo)
          case None
          with long c1 ok1 c2 Some c3 ok3 c4 t4 show ?thesis
            by (simp add: r_def cmdAdd_veth_def Let_def mk_def peerName_def)
        next
          case pv: (Some pv)
          obtain ok5 w5 where c5: "netlink_call w4 (LinkSetMaster pv bridge) = (ok5, w5)"
            by (cases "netlink_call w4 (LinkSetMaster pv bridge)")
          then have t5: "trace w5 = trace w @ [(mk, True), (LinkByName (env_IfName env), True),
                        (LinkSetNsPid cv (env_PID env), True), (LinkByName peerName, True),
                        (LinkSetMaster pv bridge, ok5)]"
            using t4 pv by (auto simp: netlink_call_def Let_def)
          show ?thesis
          proof (cases ok5)
            case False
            with long c1 ok1 c2 Some c3 ok3 c4 pv c5 t5 show ?thesis
              by (simp add: r_def cmdAdd_veth_def Let_def mk_def peerName_def)
          next
            case ok5: True
            obtain ok6 w6 where c6: "netlink_call w5 (LinkSetUp cv) = (ok6, w6)"
              by (cases "netlink_call w5 (LinkSetUp cv)")
            then have t6: "trace w6 = trace w @ [(mk, True), (LinkByName (env_IfName env), True),
                        (LinkSetNsPid cv (env_PID env), True), (LinkByName peerName, True),
                        (LinkSetMaster pv bridge, True), (LinkSetUp cv, ok6)]"
              using t5 ok5 by (auto simp: netlink_call_def Let_def)
            show ?thesis
            proof (cases ok6)
              case False
              with long c1 ok1 c2 Some c3 ok3 c4 pv c5 ok5 c6 t6 show ?thesis
                by (simp add: r_def cmdAdd_veth_def Let_def mk_def peerName_def)
            next
              case ok6: True
              obtain ok7 w7 where c7: "netlink_call w6 (LinkSetUp pv) = (ok7, w7)"
                by (cases "netlink_call w6 (LinkSetUp pv)")
              then have t7: "trace w7 = trace w @ [(mk, True), (LinkByName (env_IfName env), True),
                        (LinkSetNsPid cv (env_PID env), True), (LinkByName peerName, True),
                        (LinkSetMaster pv bridge, True), (LinkSetUp cv, True), (LinkSetUp pv, ok7)]"
                using t6 ok6 by (auto simp: netlink_call_def Let_def)
              show ?thesis
              proof (cases ok7)
                case False
                with long c1 ok1 c2 Some c3 ok3 c4 pv c5 ok5 c6 ok6 c7 t7 show ?thesis
                  by (simp add: r_def cmdAdd_veth_def Let_def mk_def peerName_def)
              next
                case ok7: True
                have r: "r = cmdAdd_addresses L config env ipPool bridge cv w7"
                  using long c1 ok1 c2 Some c3 ok3 c4 pv c5 ok5 c6 ok6 c7 ok7
                  by (simp add: r_def cmdAdd_veth_def Let_def mk_def peerName_def)
                define tail where "tail = added w7 (snd (cmdAdd_addresses L config env ipPool bridge cv w7))"
                have "trace (snd r) = trace w7 @ tail"
                  unfolding r tail_def by (rule trace_addresses)
                with t7 ok7 have "trace (snd r) = trace w @ [(mk, True), (LinkByName (env_IfName env), True),
                        (LinkSetNsPid cv (env_PID env), True), (LinkByName peerName, True),
                        (LinkSetMaster pv bridge, True), (LinkSetUp cv, True), (LinkSetUp pv, True)] @ tail"
                  by simp
                moreover have "list_all (\<lambda>e. address_to cv e \<or> (\<exists>br. bridge = Some br \<and> address_to br e)) tail"
                  unfolding tail_def by (rule added_addresses)
                ultimately show ?thesis by blast
              qed
            qed
          qed
        qed
      qed
    qed
  qed
qed

lemma address_tail_other:
  assumes "list_all (\<lambda>e. address_to cv e \<or> (\<exists>br. bridge = Some br \<and> address_to br e)) tail"
    and "l \<noteq> cv" and "Some l \<noteq> bridge"
  shows "\<not> list_ex (address_to l) tail"
  using assms by (induction tail) (auto simp: address_to_def split: call.splits prod.splits)

lemma address_tail_no_up:
  assumes "list_all (\<lambda>e. address_to cv e \<or> (\<exists>br. bridge = Some br \<and> address_to br e)) tail"
  shows "\<not> list_ex (brought_up l) tail" and "\<not> list_ex move_refused tail"
    and "\<not> list_ex (move_of l) tail"
  using assms
  by (induction tail; auto simp: event_defs split: call.splits prod.splits)+

text \<open>What \<open>cmdAdd\<close> adds to the trace: nothing when the pool cannot be built, the failed
  lookup of the bridge, or the successful lookup followed by the events of the middle
  part run with the bridge found.\<close>

lemma cmdAdd_events:
  fixes L config env w
  defines "r \<equiv> cmdAdd L config env w"
  defines "bridge \<equiv> link_table w (trace w) (cfg_Bridge config)"
  shows "(trace (snd r) = trace w \<and> (\<forall>x. fst r \<noteq> Ok x)) \<or>
         (bridge = None \<and> trace (snd r) = trace w @ [(LinkByName (cfg_Bridge config), False)] \<and>
            fst r = Err FailedGetBridge) \<or>
         (\<exists>ipPool w1. bridge \<noteq> None \<and>
            trace w1 = trace w @ [(LinkByName (cfg_Bridge config), True)] \<and>
            r = cmdAdd_veth L config env ipPool bridge w1)"
proof (cases "NewIpPool L w (cfg_Subnet config) (cfg_Gateway config) (env_Path env)")
  case (Ok ipPool)
  define w0 where "w0 = snd (Save ipPool w)"
  define w1 where "w1 = w0\<lparr> trace := trace w0 @ [(LinkByName (cfg_Bridge config), bridge \<noteq> None)] \<rparr>"
  have lb: "LinkByName_call w0 (cfg_Bridge config) = (bridge, w1)"
    by (simp add: LinkByName_call_def Let_def w1_def w0_def bridge_def)
  have t1: "trace w1 = trace w @ [(LinkByName (cfg_Bridge config), bridge \<noteq> None)]"
    by (simp add: w1_def w0_def)
  show ?thesis
  proof (cases bridge)
    case None
    with Ok lb t1 show ?thesis
      by (simp add: r_def cmdAdd_def Let_def w0_def [symmetric])
  next
    case (Some br)
    with Ok lb have r: "r = cmdAdd_veth L config env ipPool bridge w1"
      by (simp add: r_def cmdAdd_def Let_def w0_def [symmetric])
    with t1 Some show ?thesis by auto
  qed
qed (simp_all add: r_def cmdAdd_def)

text \<open>
  Claim C8 (ordering within ADD), for every library, configuration, environment and
  world, on the events that the run adds to the trace. No address is assigned to a link
  other than the bridge before that link has been moved into the namespace with success
  (the container-side link is the one link ADD moves). No link other than the moved one
  is brought up before it has been attached to the bridge with success (the host-side
  peer). And when the namespace move is refused, ADD returns the error "failed to move
  veth" and the run holds no address assignment at all.
\<close>

theorem cmdAdd_ordering:
  "(\<forall>l. Some l \<noteq> link_table w (trace w) (cfg_Bridge config) \<longrightarrow>
        preceded (moved l) (address_to l) (added w (snd (cmdAdd L config env w)))) \<and>
   (\<forall>l. \<not> list_ex (move_of l) (added w (snd (cmdAdd L config env w))) \<longrightarrow>
        preceded (attached l (link_table w (trace w) (cfg_Bridge config))) (brought_up l)
          (added w (snd (cmdAdd L config env w)))) \<and>
   (list_ex move_refused (added w (snd (cmdAdd L config env w))) \<longrightarrow>
        fst (cmdAdd L config env w) = Err FailedMoveVeth \<and>
        \<not> list_ex any_address (added w (snd (cmdAdd L config env w))))"
proof -
  define r where "r = cmdAdd L config env w"
  define bridge where "bridge = link_table w (trace w) (cfg_Bridge config)"
  define evs where "evs = added w (snd r)"
  define lb where "lb = (LinkByName (cfg_Bridge config), True)"
  define peerName where "peerName = ''veth-'' @ take 5 (env_ContainerID env)"
  define mk where "mk = LinkAddVeth (env_IfName env) (cfg_MTU config) peerName"
  have lb_no [simp]: "\<And>l. \<not> moved l lb" "\<And>l. \<not> address_to l lb" "\<And>l. \<not> move_of l lb"
    "\<And>l m. \<not> attached l m lb" "\<And>l. \<not> brought_up l lb" "\<not> move_refused lb" "\<not> any_address lb"
    by (simp_all add: lb_def)
  have mk_no [simp]: "\<And>l b. \<not> moved l (mk, b)" "\<And>l b. \<not> address_to l (mk, b)"
    "\<And>l b. \<not> move_of l (mk, b)"
    "\<And>l m b. \<not> attached l m (mk, b)" "\<And>l b. \<not> brought_up l (mk, b)"
    "\<And>b. \<not> move_refused (mk, b)" "\<And>b. \<not> any_address (mk, b)"
    by (simp_all add: mk_def)
  from cmdAdd_events [of L config env w]
  consider (none) "evs = []"
    | (nobridge) "evs = [(LinkByName (cfg_Bridge config), False)]"
    | (veth) ipPool w1 where "trace w1 = trace w @ [lb]"
        "r = cmdAdd_veth L config env ipPool bridge w1"
    unfolding r_def [symmetric] bridge_def [symmetric] evs_def lb_def
    by (auto simp: added_def)
  then have "(\<forall>l. Some l \<noteq> bridge \<longrightarrow> preceded (moved l) (address_to l) evs) \<and>
     (\<forall>l. \<not> list_ex (move_of l) evs \<longrightarrow> preceded (attached l bridge) (brought_up l) evs) \<and>
     (list_ex move_refused evs \<longrightarrow> fst r = Err FailedMoveVeth \<and> \<not> list_ex any_address evs)"
  proof cases
    case none
    then show ?thesis by simp
  next
    case nobridge
    then show ?thesis by simp
  next
    case (veth ipPool w1)
    note sh = cmdAdd_veth_events [of L config env ipPool bridge w1, folded veth(2) peerName_def mk_def]
    have ev: "\<And>X. trace (snd r) = trace w1 @ X \<Longrightarrow> evs = lb # X"
      using veth(1) by (simp add: evs_def added_def)
    have ev0: "trace (snd r) = trace w1 \<Longrightarrow> evs = [lb]"
      using ev [of "[]"] by simp
    from sh show ?thesis
    proof (elim disjE exE conjE)
      fix cv pv tail
      assume t: "trace (snd r) = trace w1 @ [(mk, True), (LinkByName (env_IfName env), True),
               (LinkSetNsPid cv (env_PID env), True), (LinkByName peerName, True),
               (LinkSetMaster pv bridge, True), (LinkSetUp cv, True), (LinkSetUp pv, True)] @ tail"
        and tl: "list_all (\<lambda>e. address_to cv e \<or> (\<exists>br. bridge = Some br \<and> address_to br e)) tail"
      have a: "preceded (moved l) (address_to l) tail" if "l \<noteq> cv" "Some l \<noteq> bridge" for l
        using address_tail_other [OF tl that] by (rule preceded_no_late)
      have b: "preceded (attached l bridge) (brought_up l) tail" for l
        using address_tail_no_up(1) [OF tl] by (rule preceded_no_late)
      have c: "\<not> list_ex move_refused tail" by (rule address_tail_no_up(2) [OF tl])
      define pre where "pre = [(mk, True), (LinkByName (env_IfName env), True),
               (LinkSetNsPid cv (env_PID env), True), (LinkByName peerName, True),
               (LinkSetMaster pv bridge, True), (LinkSetUp cv, True), (LinkSetUp pv, True)]"
      have e: "evs = lb # pre @ tail" using ev [OF t] by (simp add: pre_def)
      have p1: "preceded (moved l) (address_to l) evs" if "Some l \<noteq> bridge" for l
      proof (cases "l = cv")
        case True
        then show ?thesis by (simp add: e pre_def)
      next
        case False
        from a [OF False that] show ?thesis by (simp add: e pre_def)
      qed
      have p2: "preceded (attached l bridge) (brought_up l) evs"
        if "\<not> list_ex (move_of l) evs" for l
      proof -
        from that have "l \<noteq> cv" by (auto simp: e pre_def)
        with b [of l] show ?thesis by (simp add: e pre_def)
      qed
      have p3: "\<not> list_ex move_refused evs" using c by (simp add: e pre_def)
      from p1 p2 p3 show ?thesis by blast
    qed (auto dest!: ev ev0)
  qed
  then show ?thesis unfolding evs_def r_def bridge_def .
qed

text \<open>Two runs of ADD: one in which every step succeeds, one in which the move is
  refused.\<close>

lemma test_pool_built:
  "NewIpPool lenient_net w ''10.0.0.0/24'' ''10.0.0.1/3'' ''/opt/cni/bin'' =
     (if mkdir_fails w ''/opt/cni/bin'' then Fatal MkdirFailed else Ok test_pool)"
  by (simp add: NewIpPool_def lenient_net_def go_ParseCIDR_def ParseAddr_def digit_val_def dtoi_def
        test_pool_def)

lemma To4_mapped_bytes:
  "To4 (replicate 10 0 @ [0xff, 0xff, a, b, c, d]) = Some [a, b, c, d]"
  by (simp add: To4_def nth_append)

lemma lenient_subnet: "ParseCIDR lenient_net ''10.0.0.0/24'' = Some (24, 32)"
  by (simp add: lenient_net_def go_ParseCIDR_def ParseAddr_def digit_val_def dtoi_def)

lemma lenient_gateway:
  "ParseIP lenient_net ''10.0.0.1/3'' = Some (replicate 10 0 @ [0xff, 0xff, 10, 0, 0, 1])"
  by (simp add: lenient_net_def go_ParseIP_def ParseAddr_def digit_val_def)

lemma test_pool_allocate:
  "AllocateIP lenient_net test_pool = (Ok [10, 0, 0, 2], test_pool\<lparr> Allocation := (replicate 5 0)[0 := 1] \<rparr>)"
proof -
  have "slot_address lenient_net ''10.0.0.1/3'' 0 = Some [10, 0, 0, 2]"
    unfolding slot_address_def lenient_gateway by (simp add: To4_mapped_bytes)
  then show ?thesis
    by (simp add: AllocateIP_def test_pool_def reverse_search.simps [of _ 0])
qed

lemma Load_saved:
  assumes "files w (pool_file p) = Some (Marshal p)" and "Allocation p \<noteq> []"
  shows "Load p w = (Ok (), p)"
proof -
  from set_members_Marshal [OF assms(2), of p] obtain ms where
    m: "Marshal p = Object ms" and s: "set_members ms p = (p, False)"
    by (cases "Marshal p") auto
  show ?thesis unfolding Load_def assms(1) m by (simp add: s)
qed

lemma lab_run:
  "fst (cmdAdd lenient_net test_config test_env lab_world) = Ok () \<and>
   trace (snd (cmdAdd lenient_net test_config test_env lab_world)) =
     [(LinkByName ''cni0'', True),
      (LinkAddVeth ''eth0'' 1500 ''veth-test1'', True),
      (LinkByName ''eth0'', True),
      (LinkSetNsPid (Link ''eth0'' ''02:00:00:00:00:01'') 0, True),
      (LinkByName ''veth-test1'', True),
      (LinkSetMaster (Link ''veth-test1'' ''02:00:00:00:00:01'')
         (Some (Link ''cni0'' ''02:00:00:00:00:01'')), True),
      (LinkSetUp (Link ''eth0'' ''02:00:00:00:00:01''), True),
      (LinkSetUp (Link ''veth-test1'' ''02:00:00:00:00:01''), True),
      (AddrAdd (Link ''cni0'' ''02:00:00:00:00:01'')
         (replicate 10 0 @ [0xff, 0xff, 10, 0, 0, 1]) 24 32, True),
      (AddrAdd (Link ''eth0'' ''02:00:00:00:00:01'') [10, 0, 0, 2] 24 32, True)]"
proof -
  define w0 where "w0 = snd (Save test_pool lab_world)"
  have sel [simp]: "trace w0 = []" "call_refused w0 = (\<lambda>_ _. False)" "stdout_fails w0 = False"
    "link_table w0 = (\<lambda>_ name. Some (Link name ''02:00:00:00:00:01''))"
    by (simp_all add: w0_def Save_def lab_world_def)
  have "files w0 (pool_file test_pool) = Some (Marshal test_pool)"
    by (simp add: w0_def Save_def lab_world_def)
  then have fl: "files (w0\<lparr> trace := tr \<rparr>) (pool_file test_pool) = Some (Marshal test_pool)" for tr
    by simp
  have ne: "Allocation test_pool \<noteq> []" by (simp add: test_pool_def)
  have load [simp]: "Load test_pool (w0\<lparr> trace := tr \<rparr>) = (Ok (), test_pool)" for tr
    by (rule Load_saved [OF fl ne])
  have np: "NewIpPool lenient_net lab_world (cfg_Subnet test_config) (cfg_Gateway test_config)
              (env_Path test_env) = Ok test_pool"
    by (simp add: test_config_def test_env_def test_pool_built lab_world_def)
  have c1: "cmdAdd lenient_net test_config test_env lab_world =
        cmdAdd_veth lenient_net test_config test_env test_pool
          (Some (Link ''cni0'' ''02:00:00:00:00:01''))
          (w0\<lparr> trace := [(LinkByName ''cni0'', True)] \<rparr>)"
    unfolding cmdAdd_def np outcome.case w0_def [symmetric]
    by (simp add: LinkByName_call_def Let_def test_config_def)
  have c2: "cmdAdd_veth lenient_net test_config test_env test_pool
          (Some (Link ''cni0'' ''02:00:00:00:00:01''))
          (w0\<lparr> trace := [(LinkByName ''cni0'', True)] \<rparr>) =
        cmdAdd_addresses lenient_net test_config test_env test_pool
          (Some (Link ''cni0'' ''02:00:00:00:00:01'')) (Link ''eth0'' ''02:00:00:00:00:01'')
          (w0\<lparr> trace := [(LinkByName ''cni0'', True),
      (LinkAddVeth ''eth0'' 1500 ''veth-test1'', True),
      (LinkByName ''eth0'', True),
      (LinkSetNsPid (Link ''eth0'' ''02:00:00:00:00:01'') 0, True),
      (LinkByName ''veth-test1'', True),
      (LinkSetMaster (Link ''veth-test1'' ''02:00:00:00:00:01'')
         (Some (Link ''cni0'' ''02:00:00:00:00:01'')), True),
      (LinkSetUp (Link ''eth0'' ''02:00:00:00:00:01''), True),
      (LinkSetUp (Link ''veth-test1'' ''02:00:00:00:00:01''), True)] \<rparr>)"
    unfolding cmdAdd_veth_def
    by (simp add: netlink_call_def LinkByName_call_def Let_def test_config_def test_env_def)
  show ?thesis
    unfolding c1 c2 cmdAdd_addresses_def
    by (simp add: test_config_def test_env_def lenient_subnet lenient_gateway test_pool_allocate
          netlink_call_def Encode_def Let_def)
qed

lemma no_move_run:
  "fst (cmdAdd lenient_net test_config test_env no_move_world) = Err FailedMoveVeth \<and>
   trace (snd (cmdAdd lenient_net test_config test_env no_move_world)) =
     [(LinkByName ''cni0'', True),
      (LinkAddVeth ''eth0'' 1500 ''veth-test1'', True),
      (LinkByName ''eth0'', True),
      (LinkSetNsPid (Link ''eth0'' ''02:00:00:00:00:01'') 0, False)]"
proof -
  define w0 where "w0 = snd (Save test_pool no_move_world)"
  have sel [simp]: "trace w0 = []"
    "call_refused w0 = (\<lambda>_ c. case c of LinkSetNsPid l pid \<Rightarrow> True | _ \<Rightarrow> False)"
    "link_table w0 = (\<lambda>_ name. Some (Link name ''02:00:00:00:00:01''))"
    by (simp_all add: w0_def Save_def no_move_world_def lab_world_def)
  have np: "NewIpPool lenient_net no_move_world (cfg_Subnet test_config) (cfg_Gateway test_config)
              (env_Path test_env) = Ok test_pool"
    by (simp add: test_config_def test_env_def test_pool_built no_move_world_def lab_world_def)
  have c1: "cmdAdd lenient_net test_config test_env no_move_world =
        cmdAdd_veth lenient_net test_config test_env test_pool
          (Some (Link ''cni0'' ''02:00:00:00:00:01''))
          (w0\<lparr> trace := [(LinkByName ''cni0'', True)] \<rparr>)"
    unfolding cmdAdd_def np outcome.case w0_def [symmetric]
    by (simp add: LinkByName_call_def Let_def test_config_def)
  show ?thesis
    unfolding c1 cmdAdd_veth_def
    by (simp add: netlink_call_def LinkByName_call_def Let_def test_config_def test_env_def)
qed

theorem cmdAdd_ordering_witness:
  "Some (Link ''eth0'' ''02:00:00:00:00:01'') \<noteq>
     link_table lab_world (trace lab_world) (cfg_Bridge test_config) \<and>
   list_ex (address_to (Link ''eth0'' ''02:00:00:00:00:01''))
     (added lab_world (snd (cmdAdd lenient_net test_config test_env lab_world))) \<and>
   preceded (moved (Link ''eth0'' ''02:00:00:00:00:01''))
     (address_to (Link ''eth0'' ''02:00:00:00:00:01''))
     (added lab_world (snd (cmdAdd lenient_net test_config test_env lab_world))) \<and>
   \<not> list_ex (move_of (Link ''veth-test1'' ''02:00:00:00:00:01''))
     (added lab_world (snd (cmdAdd lenient_net test_config test_env lab_world))) \<and>
   list_ex (brought_up (Link ''veth-test1'' ''02:00:00:00:00:01''))
     (added lab_world (snd (cmdAdd lenient_net test_config test_env lab_world))) \<and>
   preceded
     (attached (Link ''veth-test1'' ''02:00:00:00:00:01'')
        (link_table lab_world (trace lab_world) (cfg_Bridge test_config)))
     (brought_up (Link ''veth-test1'' ''02:00:00:00:00:01''))
     (added lab_world (snd (cmdAdd lenient_net test_config test_env lab_world))) \<and>
   list_ex move_refused
     (added no_move_world (snd (cmdAdd lenient_net test_config test_env no_move_world))) \<and>
   fst (cmdAdd lenient_net test_config test_env no_move_world) = Err FailedMoveVeth \<and>
   \<not> list_ex any_address
     (added no_move_world (snd (cmdAdd lenient_net test_config test_env no_move_world)))"
proof -
  define evs where "evs = added lab_world (snd (cmdAdd lenient_net test_config test_env lab_world))"
  define evs' where
    "evs' = added no_move_world (snd (cmdAdd lenient_net test_config test_env no_move_world))"
  define br where "br = link_table lab_world (trace lab_world) (cfg_Bridge test_config)"
  have e: "evs = trace (snd (cmdAdd lenient_net test_config test_env lab_world))"
    by (simp add: evs_def added_def lab_world_def)
  have e': "evs' = trace (snd (cmdAdd lenient_net test_config test_env no_move_world))"
    by (simp add: evs'_def added_def no_move_world_def lab_world_def)
  have h1: "Some (Link ''eth0'' ''02:00:00:00:00:01'') \<noteq> br"
    by (simp add: br_def lab_world_def test_config_def)
  have h2: "\<not> list_ex (move_of (Link ''veth-test1'' ''02:00:00:00:00:01'')) evs"
    unfolding e using lab_run by simp
  have h3: "list_ex move_refused evs'"
    unfolding e' using no_move_run by simp
  have n1: "list_ex (address_to (Link ''eth0'' ''02:00:00:00:00:01'')) evs"
    unfolding e using lab_run by simp
  have n2: "list_ex (brought_up (Link ''veth-test1'' ''02:00:00:00:00:01'')) evs"
    unfolding e using lab_run by simp
  note T1 = cmdAdd_ordering [of lab_world test_config lenient_net test_env,
      folded evs_def br_def]
  note T2 = cmdAdd_ordering [of no_move_world test_config lenient_net test_env,
      folded evs'_def]
  from T1 h1 have c1: "preceded (moved (Link ''eth0'' ''02:00:00:00:00:01''))
     (address_to (Link ''eth0'' ''02:00:00:00:00:01'')) evs" by blast
  from T1 h2 have c2: "preceded (attached (Link ''veth-test1'' ''02:00:00:00:00:01'') br)
     (brought_up (Link ''veth-test1'' ''02:00:00:00:00:01'')) evs" by blast
  from T2 h3 have c3: "fst (cmdAdd lenient_net test_config test_env no_move_world) = Err FailedMoveVeth \<and>
      \<not> list_ex any_address evs'" by blast
  from h1 h2 h3 n1 n2 c1 c2 c3 show ?thesis
    unfolding evs_def evs'_def br_def by blast
qed

subsection \<open>The bridge\<close>

lemma address_tail_no_bridge:
  assumes "list_all (\<lambda>e. address_to cv e \<or> (\<exists>br. bridge = Some br \<and> address_to br e)) tail"
  shows "\<not> list_ex bridge_created tail"
  using assms
  by (induction tail) (auto simp: address_to_def bridge_created_def split: call.splits prod.splits)

text \<open>\<open>cmdAdd\<close> never asks the kernel for a new bridge, whatever its input.\<close>

lemma cmdAdd_never_creates_bridge:
  "\<not> list_ex bridge_created (added w (snd (cmdAdd L config env w)))"
proof -
  define r where "r = cmdAdd L config env w"
  define bridge where "bridge = link_table w (trace w) (cfg_Bridge config)"
  define evs where "evs = added w (snd r)"
  have bc [simp]: "\<And>c ok. bridge_created (c, ok) = (case c of LinkAddBridge n m \<Rightarrow> True | _ \<Rightarrow> False)"
    by (simp add: bridge_created_def)
  from cmdAdd_events [of L config env w]
  consider (none) "evs = []"
    | (nobridge) "evs = [(LinkByName (cfg_Bridge config), False)]"
    | (veth) ipPool w1 where "trace w1 = trace w @ [(LinkByName (cfg_Bridge config), True)]"
        "r = cmdAdd_veth L config env ipPool bridge w1"
    unfolding r_def [symmetric] bridge_def [symmetric] evs_def
    by (auto simp: added_def)
  then have "\<not> list_ex bridge_created evs"
  proof cases
    case none
    then show ?thesis by simp
  next
    case nobridge
    then show ?thesis by simp
  next
    case (veth ipPool w1)
    note sh = cmdAdd_veth_events [of L config env ipPool bridge w1, folded veth(2)]
    have ev: "\<And>X. trace (snd r) = trace w1 @ X \<Longrightarrow> evs = (LinkByName (cfg_Bridge config), True) # X"
      using veth(1) by (simp add: evs_def added_def)
    have ev0: "trace (snd r) = trace w1 \<Longrightarrow> evs = [(LinkByName (cfg_Bridge config), True)]"
      using ev [of "[]"] by simp
    from sh show ?thesis
      by (elim disjE exE conjE) (auto dest!: ev ev0 address_tail_no_bridge)
  qed
  then show ?thesis unfolding evs_def r_def .
qed

text \<open>
  Claim C2 (bridge ensure-idempotency) says that ADD creates the bridge when no link of
  that name exists. In a world without links, ADD for the configuration of the
  Makefile's \<open>test-add\<close> target (gateway written as a CIDR, so that the pool can be
  built) looks the bridge up, returns "failed to get bridge" and makes no other call: no
  bridge is created. With the gateway as the Makefile writes it, \<open>NewIpPool\<close> ends the
  process before the bridge is looked at.
\<close>

theorem cmdAdd_absent_bridge:
  "link_table quiet_world (trace quiet_world) (cfg_Bridge add_config) = None \<and>
   fst (cmdAdd go_net add_config test_env quiet_world) = Err FailedGetBridge \<and>
   trace (snd (cmdAdd go_net add_config test_env quiet_world)) = [(LinkByName ''cni0'', False)] \<and>
   cmdAdd go_net makefile_config test_env quiet_world = (Fatal BadCIDRArgument, quiet_world)"
proof -
  have np: "NewIpPool go_net quiet_world (cfg_Subnet add_config) (cfg_Gateway add_config)
              (env_Path test_env) =
            Ok \<lparr> PoolName = ''10.0.0.0/24'', CidrRange = ''10.0.0.1/24'', Path = ''/opt/cni/bin'',
                 Gateway = 0, TotalIps = 16777213, LastAllocatedIP = 0,
                 Allocation = replicate 16777213 0 \<rparr>"
    by (simp add: NewIpPool_def go_parse_defs quiet_world_def add_config_def test_env_def)
  have a: "fst (cmdAdd go_net add_config test_env quiet_world) = Err FailedGetBridge \<and>
   trace (snd (cmdAdd go_net add_config test_env quiet_world)) = [(LinkByName ''cni0'', False)]"
    unfolding cmdAdd_def np outcome.case
    by (simp add: LinkByName_call_def Let_def Save_def quiet_world_def add_config_def)
  have b: "cmdAdd go_net makefile_config test_env quiet_world = (Fatal BadCIDRArgument, quiet_world)"
    by (simp add: cmdAdd_def NewIpPool_def go_parse_defs makefile_config_def test_env_def)
  have c: "link_table quiet_world (trace quiet_world) (cfg_Bridge add_config) = None"
    by (simp add: quiet_world_def)
  from a b c show ?thesis by blast
qed

end
